theory Spec2Isabelle
  imports
    Complex_Main
    "HOL-Library.Char_ord"
    "HOL-Library.List_Lexorder"
    "HOL-Library.Word"
begin

section \<open>Libraries and the outside world\<close>

text \<open>
  The development embeds \<^verbatim>\<open>binanceapi/option.py\<close> (class \<^verbatim>\<open>OptionClient\<close>).

  A Python \<^verbatim>\<open>str\<close> is represented by the byte string of its UTF-8 encoding (a
  \<^typ>\<open>string\<close>); concatenation and \<^verbatim>\<open>join\<close> commute with that encoding, and
  \<^verbatim>\<open>encode('utf8')\<close> reads the bytes off.
\<close>

text \<open>A decoded JSON document, as \<^verbatim>\<open>response.json()\<close> returns it.\<close>

datatype json = JNull | JBool bool | JNum int | JStr string | JList "json list"
  | JDict "(string \<times> json) list"

text \<open>The arguments of one call of \<^verbatim>\<open>requests.request\<close>.\<close>

record http_request =
  rq_method :: string
  rq_url :: string
  rq_headers :: "(string \<times> string option) list"
  rq_timeout :: int

text \<open>
  What one call of \<^verbatim>\<open>requests.request\<close> does: it raises (a timeout, a refused
  connection; the text is the exception's), or it returns a response with a status code and
  a body, \<open>None\<close> for a body that \<^verbatim>\<open>response.json()\<close> cannot decode.
\<close>

datatype outcome = Raised string | Response int "json option"

type_synonym byte = "8 word"

text \<open>
  A \<^verbatim>\<open>float\<close>: a finite value, an infinity (\<open>Infinity True\<close> is the positive one) or
  NaN. Every finite double is a rational number; the model takes every rational number as a
  finite value and leaves what \<^verbatim>\<open>str\<close> prints for a float to the runtime.
\<close>

datatype pyfloat = Finite rat | Infinity bool | NaN

text \<open>
  The libraries and the outside world, as the client sees them: \<^verbatim>\<open>str(x)\<close> for a float,
  \<^verbatim>\<open>hmac.new(key, msg, hashlib.sha256).digest()\<close>, the value of
  \<^verbatim>\<open>int(time.time() * 1000)\<close> at the k-th reading of the clock, and the outcome of the
  k-th call of \<^verbatim>\<open>requests.request\<close>.
\<close>

record runtime =
  float_str :: "pyfloat \<Rightarrow> string"
  hmac_sha256 :: "byte list \<Rightarrow> byte list \<Rightarrow> byte list"
  time_ms :: "nat \<Rightarrow> int"
  http :: "nat \<Rightarrow> http_request \<Rightarrow> outcome"

section \<open>Values, strings and dictionaries of the client\<close>

text \<open>
  The values that callers pass and put into parameter dictionaries: \<^verbatim>\<open>None\<close>, booleans,
  integers, floats and strings.
\<close>

datatype pyval = PNone | PBool bool | PInt int | PFloat pyfloat | PStr string

text \<open>Truth value of an object, as \<^verbatim>\<open>if x:\<close> tests it.\<close>

fun py_truthy :: "pyval \<Rightarrow> bool" where
  "py_truthy PNone = False"
| "py_truthy (PBool b) = b"
| "py_truthy (PInt i) = (i \<noteq> 0)"
| "py_truthy (PFloat f) = (f \<noteq> Finite 0)"
| "py_truthy (PStr s) = (s \<noteq> [])"

text \<open>
  \<^verbatim>\<open>str(i)\<close> for an integer: the decimal digits, most significant first, after a minus
  sign for a negative one. \<open>str_digits\<close> is applied to numbers from 0 on.
\<close>

definition digit_char :: "int \<Rightarrow> char" where
  "digit_char d = ''0123456789'' ! nat d"

function str_digits :: "int \<Rightarrow> string" where
  "str_digits i =
     (if i < 10 then [digit_char i]
      else str_digits (i div 10) @ [digit_char (i mod 10)])"
  by pat_completeness auto
termination
  by (relation "measure nat") auto

declare str_digits.simps [simp del]

definition str_int :: "int \<Rightarrow> string" where
  "str_int i = (if i < 0 then CHR ''-'' # str_digits (- i) else str_digits i)"

text \<open>\<^verbatim>\<open>str(x)\<close>, which is what an f-string field \<^verbatim>\<open>{x}\<close> inserts.\<close>

fun py_str :: "runtime \<Rightarrow> pyval \<Rightarrow> string" where
  "py_str R PNone = ''None''"
| "py_str R (PBool b) = (if b then ''True'' else ''False'')"
| "py_str R (PInt i) = str_int i"
| "py_str R (PFloat f) = float_str R f"
| "py_str R (PStr s) = s"

text \<open>
  A \<^verbatim>\<open>dict\<close> keeps its keys in insertion order, and the encoder iterates in that
  order, so a dictionary is an association list with pairwise distinct keys, oldest key first.
\<close>

type_synonym pydict = "(string \<times> pyval) list"

definition dict_keys :: "pydict \<Rightarrow> string list" where
  "dict_keys d = map fst d"

text \<open>\<^verbatim>\<open>d.get(k)\<close>: the value, or \<^verbatim>\<open>None\<close> for a missing key.\<close>

definition dict_get :: "pydict \<Rightarrow> string \<Rightarrow> pyval" where
  "dict_get d k = (case map_of d k of None \<Rightarrow> PNone | Some v \<Rightarrow> v)"

text \<open>\<^verbatim>\<open>d[k] = v\<close>: an existing key keeps its position, a new key goes last.\<close>

fun dict_setitem :: "pydict \<Rightarrow> string \<Rightarrow> pyval \<Rightarrow> pydict" where
  "dict_setitem [] k v = [(k, v)]"
| "dict_setitem ((k', v') # d) k v =
     (if k' = k then (k, v) # d else (k', v') # dict_setitem d k v)"

text \<open>\<^verbatim>\<open>del d[k]\<close>, used in the source only on a key that is present.\<close>

definition dict_delitem :: "pydict \<Rightarrow> string \<Rightarrow> pydict" where
  "dict_delitem d k = filter (\<lambda>(k', v). k' \<noteq> k) d"

text \<open>\<^verbatim>\<open>sep.join(xs)\<close>.\<close>

fun join :: "string \<Rightarrow> string list \<Rightarrow> string" where
  "join sep [] = []"
| "join sep [x] = x"
| "join sep (x # y # ys) = x @ sep @ join sep (y # ys)"

section \<open>The parameter encoder\<close>

text \<open>
  \<^verbatim>\<open>
  def build_parameters(self, params: dict):
      keys = list(params.keys())
      keys.sort()
      return '&'.join([f"{key}={params[key]}" for key in params.keys()])
  \<close>
  The sorted list \<open>keys\<close> is computed and then not used: the comprehension iterates over
  \<^verbatim>\<open>params.keys()\<close> again, that is, in insertion order. Every key it meets is a key of
  the dictionary, so \<^verbatim>\<open>params[key]\<close> finds its value.
\<close>

definition build_parameters :: "runtime \<Rightarrow> pydict \<Rightarrow> string" where
  "build_parameters R params =
     (let keys = sort (dict_keys params)
      in join ''&''
           (map (\<lambda>key. key @ ''='' @ py_str R (dict_get params key)) (dict_keys params)))"

section \<open>Enumerations, client object and runtime\<close>

text \<open>
  Modelled from the spec: the enumerations \<^verbatim>\<open>RequestMethod\<close>, \<^verbatim>\<open>OrderType\<close>,
  \<^verbatim>\<open>OrderSide\<close> and \<^verbatim>\<open>Interval\<close> of \<^verbatim>\<open>binanceapi.constant\<close>, which the client
  imports and which is not among the sources. The spec names the HTTP methods GET, POST,
  PUT and DELETE, the order types LIMIT, MARKET and STOP and the sides BUY and SELL, each
  with a string as its wire value; an interval is represented by its wire value.
\<close>

datatype RequestMethod = GET | POST | PUT | DELETE

datatype OrderType = LIMIT | MARKET | STOP

datatype OrderSide = BUY | SELL

datatype Interval = Interval string

fun RequestMethod_value :: "RequestMethod \<Rightarrow> string" where
  "RequestMethod_value GET = ''GET''"
| "RequestMethod_value POST = ''POST''"
| "RequestMethod_value PUT = ''PUT''"
| "RequestMethod_value DELETE = ''DELETE''"

fun OrderType_value :: "OrderType \<Rightarrow> string" where
  "OrderType_value LIMIT = ''LIMIT''"
| "OrderType_value MARKET = ''MARKET''"
| "OrderType_value STOP = ''STOP''"

fun OrderSide_value :: "OrderSide \<Rightarrow> string" where
  "OrderSide_value BUY = ''BUY''"
| "OrderSide_value SELL = ''SELL''"

fun Interval_value :: "Interval \<Rightarrow> string" where
  "Interval_value (Interval v) = v"

text \<open>The exceptions that leave a method of the client; the text says where.\<close>

datatype error = AttributeError string | TypeError string | ValueError string

text \<open>
  The attributes that \<^verbatim>\<open>__init__\<close> sets. The lock \<^verbatim>\<open>order_count_lock\<close> is not a
  field: the model runs one call at a time, so the lock is free whenever it is taken.
\<close>

record OptionClient =
  api_key :: "string option"
  api_secret :: "string option"
  host :: string
  recv_window :: int
  timeout :: int
  order_count :: int
  try_counts :: int

definition init :: "string option \<Rightarrow> string option \<Rightarrow> string option \<Rightarrow> int \<Rightarrow> int \<Rightarrow> OptionClient" where
  "init key secret h tmo tries =
     \<lparr> api_key = key,
       api_secret = secret,
       host = (case h of
                 None \<Rightarrow> ''https://testnet.binanceops.com''
               | Some s \<Rightarrow> if s \<noteq> [] then s else ''https://testnet.binanceops.com''),
       recv_window = 10000,
       timeout = tmo,
       order_count = 1000000,
       try_counts = tries \<rparr>"

text \<open>What a call does to the outside, in the order in which it happens.\<close>

datatype event =
    Send http_request
  | Print_response json int
  | Print_error string string
  | Print_params pydict
  | Print_cancel_error error
  | Sleep nat

record world =
  ticks :: nat
  calls :: nat
  log :: "event list"

fun sends :: "event list \<Rightarrow> http_request list" where
  "sends [] = []"
| "sends (Send rq # es) = rq # sends es"
| "sends (e # es) = sends es"

fun sleeps :: "event list \<Rightarrow> nat list" where
  "sleeps [] = []"
| "sleeps (Sleep s # es) = s # sleeps es"
| "sleeps (e # es) = sleeps es"

text \<open>The events that a call running from world \<open>w\<close> to world \<open>w'\<close> has added.\<close>

definition emitted :: "world \<Rightarrow> world \<Rightarrow> event list" where
  "emitted w w' = drop (length (log w)) (log w')"

definition get_timestamp :: "runtime \<Rightarrow> world \<Rightarrow> int \<times> world" where
  "get_timestamp R w = (time_ms R (ticks w), w\<lparr>ticks := Suc (ticks w)\<rparr>)"

section \<open>The request signer\<close>

definition encode_utf8 :: "string \<Rightarrow> byte list" where
  "encode_utf8 s = map (\<lambda>c. of_nat (of_char c)) s"

definition hex_digit :: "nat \<Rightarrow> char" where
  "hex_digit n = ''0123456789abcdef'' ! (n mod 16)"

text \<open>\<^verbatim>\<open>hexdigest()\<close>: two lowercase hexadecimal digits for each byte.\<close>

definition hexdigest :: "byte list \<Rightarrow> string" where
  "hexdigest bs = concat (map (\<lambda>b. [hex_digit (unat b div 16), hex_digit (unat b mod 16)]) bs)"

text \<open>
  \<^verbatim>\<open>
  def _sign(self, params):
      query_string = self.build_parameters(params)
      hex_digest = hmac.new(self.api_secret.encode('utf8'), query_string.encode("utf-8"),
                            hashlib.sha256).hexdigest()
      return query_string + '&signature=' + str(hex_digest)
  \<close>
  \<^verbatim>\<open>request\<close> passes its \<^verbatim>\<open>params\<close> on, whose default is \<^verbatim>\<open>None\<close>: then
  \<^verbatim>\<open>params.keys()\<close> raises. A secret that is \<^verbatim>\<open>None\<close> has no \<^verbatim>\<open>encode\<close>.
\<close>

definition sign :: "runtime \<Rightarrow> OptionClient \<Rightarrow> pydict option \<Rightarrow> error + string" where
  "sign R c params =
     (case params of
        None \<Rightarrow> Inl (AttributeError ''keys'')
      | Some d \<Rightarrow>
          (let query_string = build_parameters R d
           in case api_secret c of
                None \<Rightarrow> Inl (AttributeError ''encode'')
              | Some secret \<Rightarrow>
                  (let hex_digest =
                         hexdigest (hmac_sha256 R (encode_utf8 secret) (encode_utf8 query_string))
                   in Inr (query_string @ ''&signature='' @ hex_digest))))"

section \<open>The transport engine\<close>

text \<open>
  \<^verbatim>\<open>
  for i in range(0, self.try_counts):
      try:
          response = requests.request(req_method.value, url=url, headers=headers,
                                      timeout=self.timeout)
          if response.status_code == 200:
              return response.json()
          else:
              print(response.json(), response.status_code)
      except Exception as error:
          print(f"...{path}...{error}")
          time.sleep(3)
  \<close>
  The first argument of \<open>attempts\<close> is the number of iterations left. An exception of
  \<^verbatim>\<open>response.json()\<close> is raised inside the \<^verbatim>\<open>try\<close> and handled like one of
  \<^verbatim>\<open>requests.request\<close>. Falling off the loop returns \<^verbatim>\<open>None\<close>.
\<close>

definition on_exception :: "string \<Rightarrow> string \<Rightarrow> world \<Rightarrow> world" where
  "on_exception path err w = w\<lparr>log := log w @ [Print_error path err, Sleep 3]\<rparr>"

fun attempts :: "runtime \<Rightarrow> nat \<Rightarrow> string \<Rightarrow> http_request \<Rightarrow> world \<Rightarrow> json option \<times> world" where
  "attempts R 0 path rq w = (None, w)"
| "attempts R (Suc n) path rq w =
     (let w1 = w\<lparr>calls := Suc (calls w), log := log w @ [Send rq]\<rparr>
      in case http R (calls w) rq of
           Raised err \<Rightarrow> attempts R n path rq (on_exception path err w1)
         | Response status_code body \<Rightarrow>
             if status_code = 200 then
               (case body of
                  Some j \<Rightarrow> (Some j, w1)
                | None \<Rightarrow> attempts R n path rq (on_exception path ''JSONDecodeError'' w1))
             else
               (case body of
                  Some j \<Rightarrow> attempts R n path rq (w1\<lparr>log := log w1 @ [Print_response j status_code]\<rparr>)
                | None \<Rightarrow> attempts R n path rq (on_exception path ''JSONDecodeError'' w1)))"

text \<open>
  \<^verbatim>\<open>
  def request(self, req_method: RequestMethod, path: str, params=None, verify=False):
      url = self.host + path
      if verify:
          query_str = self._sign(params)
          url += '?' + query_str
      elif params:
          url += '?' + self.build_parameters(params)
      headers = {"X-MBX-APIKEY": self.api_key}
      for i in range(0, self.try_counts): ...
  \<close>
  \<open>request_url\<close> is the part before the loop; signing is outside the \<^verbatim>\<open>try\<close>, so its
  exception leaves \<^verbatim>\<open>request\<close>. \<^verbatim>\<open>range(0, n)\<close> is empty for \<open>n \<le> 0\<close>.
\<close>

definition request_url :: "runtime \<Rightarrow> OptionClient \<Rightarrow> string \<Rightarrow> pydict option \<Rightarrow> bool \<Rightarrow> error + string" where
  "request_url R c path params verify =
     (if verify then
        (case sign R c params of
           Inl e \<Rightarrow> Inl e
         | Inr query_str \<Rightarrow> Inr (host c @ path @ ''?'' @ query_str))
      else
        (case params of
           None \<Rightarrow> Inr (host c @ path)
         | Some d \<Rightarrow>
             if d \<noteq> [] then Inr (host c @ path @ ''?'' @ build_parameters R d)
             else Inr (host c @ path)))"

definition request :: "runtime \<Rightarrow> OptionClient \<Rightarrow> RequestMethod \<Rightarrow> string \<Rightarrow> pydict option \<Rightarrow> bool
    \<Rightarrow> world \<Rightarrow> (error + json option) \<times> world" where
  "request R c req_method path params verify w =
     (case request_url R c path params verify of
        Inl e \<Rightarrow> (Inl e, w)
      | Inr url \<Rightarrow>
          (let headers = [(''X-MBX-APIKEY'', api_key c)];
               (r, w') = attempts R (nat (try_counts c)) path
                           \<lparr> rq_method = RequestMethod_value req_method, rq_url = url,
                             rq_headers = headers, rq_timeout = timeout c \<rparr> w
           in (Inr r, w')))"

section \<open>Endpoint operations\<close>

text \<open>Public endpoints: no signature, \<^verbatim>\<open>verify\<close> keeps its default.\<close>

definition get_ping :: "runtime \<Rightarrow> OptionClient \<Rightarrow> world \<Rightarrow> (error + json option) \<times> world" where
  "get_ping R c w = request R c GET ''/api/v1/ping'' None False w"

definition get_server_time :: "runtime \<Rightarrow> OptionClient \<Rightarrow> world \<Rightarrow> (error + json option) \<times> world" where
  "get_server_time R c w = request R c GET ''/api/v1/time'' None False w"

definition get_option_info :: "runtime \<Rightarrow> OptionClient \<Rightarrow> world \<Rightarrow> (error + json option) \<times> world" where
  "get_option_info R c w = request R c GET ''/api/v1/optionInfo'' None False w"

definition get_exchange_info :: "runtime \<Rightarrow> OptionClient \<Rightarrow> world \<Rightarrow> (error + json option) \<times> world" where
  "get_exchange_info R c w = request R c GET ''/api/v1/exchangeInfo'' None False w"

definition get_index :: "runtime \<Rightarrow> OptionClient \<Rightarrow> pyval \<Rightarrow> world \<Rightarrow> (error + json option) \<times> world" where
  "get_index R c underlying w =
     request R c GET ''/api/v1/index'' (Some [(''underlying'', underlying)]) False w"

definition get_ticker :: "runtime \<Rightarrow> OptionClient \<Rightarrow> pyval \<Rightarrow> world \<Rightarrow> (error + json option) \<times> world" where
  "get_ticker R c symbol w =
     (let params = [];
          params = (if symbol \<noteq> PNone then dict_setitem params ''symbol'' symbol else params)
      in request R c GET ''/api/v1/ticker'' (Some params) False w)"

definition get_mark :: "runtime \<Rightarrow> OptionClient \<Rightarrow> pyval \<Rightarrow> world \<Rightarrow> (error + json option) \<times> world" where
  "get_mark R c symbol w =
     (let params = [];
          params = (if symbol \<noteq> PNone then dict_setitem params ''symbol'' symbol else params)
      in request R c GET ''/api/v1/mark'' (Some params) False w)"

text \<open>
  \<^verbatim>\<open>x in [n1, n2, ...]\<close> for a list of integers: \<^verbatim>\<open>==\<close> holds between equal integers,
  between a boolean and the integer 0 or 1 that it is, and between a finite float and the
  integer of the same value.
\<close>

fun py_in_ints :: "pyval \<Rightarrow> int list \<Rightarrow> bool" where
  "py_in_ints (PInt i) xs = (i \<in> set xs)"
| "py_in_ints (PBool b) xs = ((if b then 1 else 0) \<in> set xs)"
| "py_in_ints (PFloat (Finite q)) xs = (q \<in> set (map of_int xs))"
| "py_in_ints v xs = False"

text \<open>
  \<^verbatim>\<open>
  limits = [10, 20, 50, 100, 1000]
  if limit not in limits:
      limit = 10
  path = "/api/v1/depth"
  params = {"symbol": symbol, "limit": limit}
  print(params)
  return self.request(RequestMethod.GET, path, params)
  \<close>
\<close>

definition get_order_book_params :: "pyval \<Rightarrow> pyval \<Rightarrow> pydict" where
  "get_order_book_params symbol limit =
     (let limits = [10, 20, 50, 100, 1000];
          limit = (if \<not> py_in_ints limit limits then PInt 10 else limit)
      in [(''symbol'', symbol), (''limit'', limit)])"

definition get_order_book :: "runtime \<Rightarrow> OptionClient \<Rightarrow> pyval \<Rightarrow> pyval \<Rightarrow> world
    \<Rightarrow> (error + json option) \<times> world" where
  "get_order_book R c symbol limit w =
     (let params = get_order_book_params symbol limit;
          w1 = w\<lparr>log := log w @ [Print_params params]\<rparr>
      in request R c GET ''/api/v1/depth'' (Some params) False w1)"

text \<open>
  \<^verbatim>\<open>
  if limit not in [500, 1500]:
      limit = 500
  params = {"symbol": symbol, "interval": interval.value, "limit": limit}
  if start_time:
      params['startTime'] = start_time
  if end_time:
      params['endTime'] = end_time
  return self.request(RequestMethod.GET, path, params)
  \<close>
\<close>

definition get_kline_params :: "pyval \<Rightarrow> Interval \<Rightarrow> pyval \<Rightarrow> pyval \<Rightarrow> pyval \<Rightarrow> pydict" where
  "get_kline_params symbol interval start_time end_time limit =
     (let limit = (if \<not> py_in_ints limit [500, 1500] then PInt 500 else limit);
          params = [(''symbol'', symbol), (''interval'', PStr (Interval_value interval)),
                    (''limit'', limit)];
          params = (if py_truthy start_time then dict_setitem params ''startTime'' start_time
                    else params);
          params = (if py_truthy end_time then dict_setitem params ''endTime'' end_time
                    else params)
      in params)"

definition get_kline :: "runtime \<Rightarrow> OptionClient \<Rightarrow> pyval \<Rightarrow> Interval \<Rightarrow> pyval \<Rightarrow> pyval \<Rightarrow> pyval
    \<Rightarrow> world \<Rightarrow> (error + json option) \<times> world" where
  "get_kline R c symbol interval start_time end_time limit w =
     request R c GET ''/api/v1/klines''
       (Some (get_kline_params symbol interval start_time end_time limit)) False w"

definition get_trades :: "runtime \<Rightarrow> OptionClient \<Rightarrow> pyval \<Rightarrow> pyval \<Rightarrow> world
    \<Rightarrow> (error + json option) \<times> world" where
  "get_trades R c symbol limit w =
     (let limit = (if \<not> py_in_ints limit [100, 500] then PInt 100 else limit);
          params = [(''symbol'', symbol), (''limit'', limit)]
      in request R c GET ''/api/v1/trades'' (Some params) False w)"

definition get_historical_trades :: "runtime \<Rightarrow> OptionClient \<Rightarrow> pyval \<Rightarrow> pyval \<Rightarrow> pyval \<Rightarrow> world
    \<Rightarrow> (error + json option) \<times> world" where
  "get_historical_trades R c symbol from_id limit w =
     (let limit = (if \<not> py_in_ints limit [100, 500] then PInt 100 else limit);
          params = [(''symbol'', symbol), (''limit'', limit)];
          params = (if from_id \<noteq> PNone then dict_setitem params ''fromId'' from_id else params)
      in request R c GET ''/api/v1/historicalTrades'' (Some params) False w)"

text \<open>
  \<^verbatim>\<open>
  def get_client_order_id(self):
      with self.order_count_lock:
          self.order_count += 1
          return "x-A6SIDXVS" + str(self.get_timestamp()) + str(self.order_count)
  \<close>
\<close>

definition get_client_order_id :: "runtime \<Rightarrow> OptionClient \<Rightarrow> world \<Rightarrow> string \<times> OptionClient \<times> world" where
  "get_client_order_id R c w =
     (let c1 = c\<lparr>order_count := order_count c + 1\<rparr>;
          (ts, w1) = get_timestamp R w
      in (''x-A6SIDXVS'' @ str_int ts @ str_int (order_count c1), c1, w1))"

text \<open>
  Signed endpoints. Each builds its dictionary (the function named \<open>_params\<close>, from the
  timestamp read) and hands it to \<^verbatim>\<open>request\<close> with \<^verbatim>\<open>verify=True\<close>.
\<close>

definition listen_key_params :: "int \<Rightarrow> pydict" where
  "listen_key_params ts = [(''recvWindow'', PInt 5000), (''timestamp'', PInt ts)]"

definition get_listen_key :: "runtime \<Rightarrow> OptionClient \<Rightarrow> world \<Rightarrow> (error + json option) \<times> world" where
  "get_listen_key R c w =
     (let (ts, w1) = get_timestamp R w
      in request R c POST ''/api/v1/userDataStream'' (Some (listen_key_params ts)) True w1)"

definition extend_listen_key_params :: "int \<Rightarrow> pyval \<Rightarrow> pydict" where
  "extend_listen_key_params ts listen_key =
     [(''recvWindow'', PInt 5000), (''timestamp'', PInt ts), (''listenKey'', listen_key)]"

definition extend_listen_key :: "runtime \<Rightarrow> OptionClient \<Rightarrow> pyval \<Rightarrow> world
    \<Rightarrow> (error + json option) \<times> world" where
  "extend_listen_key R c listen_key w =
     (let (ts, w1) = get_timestamp R w
      in request R c PUT ''/api/v1/userDataStream''
           (Some (extend_listen_key_params ts listen_key)) True w1)"

text \<open>\<^verbatim>\<open>delete_listen_key\<close> is \<^verbatim>\<open>pass\<close>: it returns \<^verbatim>\<open>None\<close> and does nothing.\<close>

definition delete_listen_key :: "runtime \<Rightarrow> OptionClient \<Rightarrow> world \<Rightarrow> (error + json option) \<times> world" where
  "delete_listen_key R c w = (Inr None, w)"

text \<open>
  \<^verbatim>\<open>stop_price > 0\<close>: defined between numbers (false for NaN), a \<^verbatim>\<open>TypeError\<close>
  otherwise.
\<close>

fun py_gt_zero :: "pyval \<Rightarrow> error + bool" where
  "py_gt_zero (PInt i) = Inr (0 < i)"
| "py_gt_zero (PBool b) = Inr b"
| "py_gt_zero (PFloat (Finite q)) = Inr (0 < q)"
| "py_gt_zero (PFloat (Infinity positive)) = Inr positive"
| "py_gt_zero (PFloat NaN) = Inr False"
| "py_gt_zero v = Inl (TypeError ''>'')"

text \<open>
  \<^verbatim>\<open>
  params = { "symbol": symbol, "side": order_side.value, "type": order_type.value,
             "quantity": quantity, "price": price, "recvWindow": self.recv_window,
             "timestamp": self.get_timestamp(), "newClientOrderId": client_order_id }
  if order_type == OrderType.LIMIT:
      params['timeInForce'] = time_inforce
  if order_type == OrderType.MARKET:
      if params.get('price'):
          del params['price']
  if order_type == OrderType.STOP:
      if stop_price > 0:
          params["stopPrice"] = stop_price
      else:
          raise ValueError("stopPrice must greater than 0")
  \<close>
  The dictionary of \<^verbatim>\<open>place_order\<close>, or the exception raised while it is shaped, from
  the timestamp read and the client order id in use.
\<close>

definition place_order_params :: "OptionClient \<Rightarrow> pyval \<Rightarrow> OrderSide \<Rightarrow> OrderType \<Rightarrow> pyval \<Rightarrow> pyval
    \<Rightarrow> pyval \<Rightarrow> pyval \<Rightarrow> pyval \<Rightarrow> int \<Rightarrow> error + pydict" where
  "place_order_params c symbol order_side order_type quantity price client_order_id
       time_inforce stop_price ts =
     (let params = [(''symbol'', symbol),
                    (''side'', PStr (OrderSide_value order_side)),
                    (''type'', PStr (OrderType_value order_type)),
                    (''quantity'', quantity),
                    (''price'', price),
                    (''recvWindow'', PInt (recv_window c)),
                    (''timestamp'', PInt ts),
                    (''newClientOrderId'', client_order_id)];
          params = (if order_type = LIMIT then dict_setitem params ''timeInForce'' time_inforce
                    else params);
          params = (if order_type = MARKET then
                      (if py_truthy (dict_get params ''price'')
                       then dict_delitem params ''price'' else params)
                    else params)
      in if order_type = STOP then
           (case py_gt_zero stop_price of
              Inl e \<Rightarrow> Inl e
            | Inr positive \<Rightarrow>
                if positive then Inr (dict_setitem params ''stopPrice'' stop_price)
                else Inl (ValueError ''stopPrice must greater than 0''))
         else Inr params)"

text \<open>
  \<^verbatim>\<open>place_order\<close>: a client order id of \<^verbatim>\<open>None\<close> (the default) is replaced by a
  generated one, which moves the counter of the client; the defaults of the last two
  arguments are \<^verbatim>\<open>"GTC"\<close> and \<^verbatim>\<open>0\<close>.
\<close>

definition place_order :: "runtime \<Rightarrow> OptionClient \<Rightarrow> pyval \<Rightarrow> OrderSide \<Rightarrow> OrderType \<Rightarrow> pyval \<Rightarrow> pyval
    \<Rightarrow> pyval \<Rightarrow> pyval \<Rightarrow> pyval \<Rightarrow> world \<Rightarrow> (error + json option) \<times> OptionClient \<times> world" where
  "place_order R c symbol order_side order_type quantity price client_order_id
       time_inforce stop_price w =
     (let (client_order_id, c1, w1) =
            (if client_order_id = PNone then
               (let (i, c', w') = get_client_order_id R c w in (PStr i, c', w'))
             else (client_order_id, c, w));
          (ts, w2) = get_timestamp R w1
      in case place_order_params c1 symbol order_side order_type quantity price
                client_order_id time_inforce stop_price ts of
           Inl e \<Rightarrow> (Inl e, c1, w2)
         | Inr params \<Rightarrow>
             (let (r, w3) = request R c1 POST ''/api/v1/order'' (Some params) True w2
              in (r, c1, w3)))"

definition get_order_params :: "pyval \<Rightarrow> int \<Rightarrow> pyval \<Rightarrow> pydict" where
  "get_order_params symbol ts client_order_id =
     [(''symbol'', symbol), (''timestamp'', PInt ts), (''origClientOrderId'', client_order_id)]"

definition get_order :: "runtime \<Rightarrow> OptionClient \<Rightarrow> pyval \<Rightarrow> pyval \<Rightarrow> world
    \<Rightarrow> (error + json option) \<times> world" where
  "get_order R c symbol client_order_id w =
     (let (ts, w1) = get_timestamp R w
      in request R c GET ''/api/v1/order''
           (Some (get_order_params symbol ts client_order_id)) True w1)"

text \<open>
  \<^verbatim>\<open>
  for i in range(0, 3):
      try:
          order = self.request(RequestMethod.DELETE, path, params, verify=True)
          return order
      except Exception as error:
          print(f'cancel order error:{error}')
  return
  \<close>
  The first argument of \<open>cancel_attempts\<close> is the number of iterations left.
\<close>

fun cancel_attempts :: "nat \<Rightarrow> runtime \<Rightarrow> OptionClient \<Rightarrow> pydict \<Rightarrow> world \<Rightarrow> json option \<times> world" where
  "cancel_attempts 0 R c params w = (None, w)"
| "cancel_attempts (Suc n) R c params w =
     (case request R c DELETE ''/api/v1/order'' (Some params) True w of
        (Inr order, w1) \<Rightarrow> (order, w1)
      | (Inl e, w1) \<Rightarrow>
          cancel_attempts n R c params (w1\<lparr>log := log w1 @ [Print_cancel_error e]\<rparr>))"

definition cancel_order_params :: "pyval \<Rightarrow> int \<Rightarrow> pyval \<Rightarrow> pydict" where
  "cancel_order_params symbol ts client_order_id =
     [(''symbol'', symbol), (''timestamp'', PInt ts), (''origClientOrderId'', client_order_id)]"

definition cancel_order :: "runtime \<Rightarrow> OptionClient \<Rightarrow> pyval \<Rightarrow> pyval \<Rightarrow> world
    \<Rightarrow> (error + json option) \<times> world" where
  "cancel_order R c symbol client_order_id w =
     (let (ts, w1) = get_timestamp R w;
          (r, w2) = cancel_attempts 3 R c (cancel_order_params symbol ts client_order_id) w1
      in (Inr r, w2))"

definition get_open_orders_params :: "int \<Rightarrow> pyval \<Rightarrow> pydict" where
  "get_open_orders_params ts symbol =
     (let params = [(''timestamp'', PInt ts)]
      in if py_truthy symbol then dict_setitem params ''symbol'' symbol else params)"

definition get_open_orders :: "runtime \<Rightarrow> OptionClient \<Rightarrow> pyval \<Rightarrow> world
    \<Rightarrow> (error + json option) \<times> world" where
  "get_open_orders R c symbol w =
     (let (ts, w1) = get_timestamp R w
      in request R c GET ''/api/v1/openOrders'' (Some (get_open_orders_params ts symbol)) True w1)"

definition cancel_open_orders_params :: "OptionClient \<Rightarrow> int \<Rightarrow> pyval \<Rightarrow> pydict" where
  "cancel_open_orders_params c ts symbol =
     [(''timestamp'', PInt ts), (''recvWindow'', PInt (recv_window c)), (''symbol'', symbol)]"

definition cancel_open_orders :: "runtime \<Rightarrow> OptionClient \<Rightarrow> pyval \<Rightarrow> world
    \<Rightarrow> (error + json option) \<times> world" where
  "cancel_open_orders R c symbol w =
     (let (ts, w1) = get_timestamp R w
      in request R c DELETE ''/api/v1/openOrders''
           (Some (cancel_open_orders_params c ts symbol)) True w1)"

definition get_account_info_params :: "OptionClient \<Rightarrow> int \<Rightarrow> pydict" where
  "get_account_info_params c ts = [(''timestamp'', PInt ts), (''recvWindow'', PInt (recv_window c))]"

definition get_account_info :: "runtime \<Rightarrow> OptionClient \<Rightarrow> world \<Rightarrow> (error + json option) \<times> world" where
  "get_account_info R c w =
     (let (ts, w1) = get_timestamp R w
      in request R c GET ''/api/v1/account'' (Some (get_account_info_params c ts)) True w1)"

section \<open>Notions used in the statements\<close>

text \<open>An attempt succeeds when the response has status 200 and a body that decodes.\<close>

fun succeeds :: "outcome \<Rightarrow> bool" where
  "succeeds (Response status_code (Some j)) = (status_code = 200)"
| "succeeds out = False"

text \<open>An attempt yields an HTTP 200 response, whatever its body.\<close>

fun yields_200 :: "outcome \<Rightarrow> bool" where
  "yields_200 (Response status_code body) = (status_code = 200)"
| "yields_200 (Raised err) = False"

text \<open>An attempt ends in the \<^verbatim>\<open>except\<close> branch.\<close>

fun raises :: "outcome \<Rightarrow> bool" where
  "raises (Raised err) = True"
| "raises (Response status_code None) = True"
| "raises (Response status_code (Some j)) = False"

text \<open>
  \<^verbatim>\<open>x <= 0\<close>, as Python evaluates it: the stop prices that the claim on STOP orders is
  about.
\<close>

fun py_le_zero :: "pyval \<Rightarrow> error + bool" where
  "py_le_zero (PInt i) = Inr (i \<le> 0)"
| "py_le_zero (PBool b) = Inr (\<not> b)"
| "py_le_zero (PFloat (Finite q)) = Inr (q \<le> 0)"
| "py_le_zero (PFloat (Infinity positive)) = Inr (\<not> positive)"
| "py_le_zero (PFloat NaN) = Inr False"
| "py_le_zero v = Inl (TypeError ''<='')"

text \<open>The events of one attempt that does not succeed.\<close>

fun failure_events :: "string \<Rightarrow> http_request \<Rightarrow> outcome \<Rightarrow> event list" where
  "failure_events path rq (Raised err) = [Send rq, Print_error path err, Sleep 3]"
| "failure_events path rq (Response status_code None) =
     [Send rq, Print_error path ''JSONDecodeError'', Sleep 3]"
| "failure_events path rq (Response status_code (Some j)) =
     [Send rq, Print_response j status_code]"

text \<open>The request that \<^verbatim>\<open>request\<close> sends for a URL.\<close>

definition http_request_of :: "OptionClient \<Rightarrow> RequestMethod \<Rightarrow> string \<Rightarrow> http_request" where
  "http_request_of c req_method url =
     \<lparr> rq_method = RequestMethod_value req_method, rq_url = url,
       rq_headers = [(''X-MBX-APIKEY'', api_key c)], rq_timeout = timeout c \<rparr>"

text \<open>
  The number of iterations that the attempt loop runs with \<open>n\<close> iterations left after \<open>k\<close>
  calls of \<^verbatim>\<open>requests.request\<close>: up to and including the first attempt that succeeds.
\<close>

fun attempts_made :: "runtime \<Rightarrow> nat \<Rightarrow> http_request \<Rightarrow> nat \<Rightarrow> nat" where
  "attempts_made R 0 rq k = 0"
| "attempts_made R (Suc n) rq k =
     (if succeeds (http R k rq) then 1 else Suc (attempts_made R n rq (Suc k)))"

text \<open>
  The requests that the attempt loop of client \<open>c\<close> sends for the request \<open>rq\<close> from
  world \<open>w\<close>: one copy of \<open>rq\<close> for each iteration.
\<close>

definition loop_sends :: "runtime \<Rightarrow> OptionClient \<Rightarrow> http_request \<Rightarrow> world \<Rightarrow> http_request list" where
  "loop_sends R c rq w = replicate (attempts_made R (nat (try_counts c)) rq (calls w)) rq"

text \<open>
  The request of a signed call: the URL is host, path, \<^verbatim>\<open>?\<close>, the encoding of the
  dictionary, and last the field \<^verbatim>\<open>signature\<close> with the digest of exactly that encoding
  under the secret.
\<close>

definition signed_request :: "runtime \<Rightarrow> OptionClient \<Rightarrow> string \<Rightarrow> RequestMethod \<Rightarrow> string \<Rightarrow> pydict
    \<Rightarrow> http_request" where
  "signed_request R c secret req_method path params =
     \<lparr> rq_method = RequestMethod_value req_method,
       rq_url = host c @ path @ ''?'' @ build_parameters R params @ ''&signature=''
                  @ hexdigest (hmac_sha256 R (encode_utf8 secret)
                      (encode_utf8 (build_parameters R params))),
       rq_headers = [(''X-MBX-APIKEY'', api_key c)],
       rq_timeout = timeout c \<rparr>"

text \<open>The request of a call that is not signed, for a URL.\<close>

definition plain_request :: "OptionClient \<Rightarrow> RequestMethod \<Rightarrow> string \<Rightarrow> http_request" where
  "plain_request c req_method url =
     \<lparr> rq_method = RequestMethod_value req_method, rq_url = url,
       rq_headers = [(''X-MBX-APIKEY'', api_key c)], rq_timeout = timeout c \<rparr>"

text \<open>
  The client order id that \<^verbatim>\<open>place_order\<close> uses in world \<open>w\<close>, a generated one when the
  caller gave \<^verbatim>\<open>None\<close>, and the clock reading that it puts into \<^verbatim>\<open>timestamp\<close>, which
  is the second reading when an id was generated.
\<close>

definition order_id_used :: "runtime \<Rightarrow> OptionClient \<Rightarrow> pyval \<Rightarrow> world \<Rightarrow> pyval" where
  "order_id_used R c client_order_id w =
     (if client_order_id = PNone
      then PStr (''x-A6SIDXVS'' @ str_int (time_ms R (ticks w)) @ str_int (order_count c + 1))
      else client_order_id)"

definition order_timestamp :: "runtime \<Rightarrow> pyval \<Rightarrow> world \<Rightarrow> int" where
  "order_timestamp R client_order_id w =
     time_ms R (if client_order_id = PNone then Suc (ticks w) else ticks w)"

text \<open>The requests that a call sends when it runs from world \<open>w\<close> to world \<open>w'\<close>.\<close>

definition requests_sent :: "world \<Rightarrow> world \<Rightarrow> http_request list" where
  "requests_sent w w' = sends (emitted w w')"

text \<open>
  A request carries the signed query string of a dictionary: its URL is host, path,
  \<^verbatim>\<open>?\<close>, the encoding of the dictionary, and last the field \<^verbatim>\<open>signature\<close> with the
  digest of exactly that encoding under the secret of the client.
\<close>

definition signed_by :: "runtime \<Rightarrow> OptionClient \<Rightarrow> string \<Rightarrow> pydict \<Rightarrow> http_request \<Rightarrow> bool" where
  "signed_by R c path params rq =
     (case api_secret c of
        None \<Rightarrow> False
      | Some secret \<Rightarrow>
          rq_url rq = host c @ path @ ''?'' @ build_parameters R params @ ''&signature=''
            @ hexdigest (hmac_sha256 R (encode_utf8 secret)
                (encode_utf8 (build_parameters R params))))"

text \<open>
  A call running from world \<open>w\<close> to world \<open>w'\<close> only adds events, and every request among
  them satisfies \<open>P\<close>.
\<close>

definition sends_only :: "(http_request \<Rightarrow> bool) \<Rightarrow> world \<Rightarrow> world \<Rightarrow> bool" where
  "sends_only P w w' = (\<exists>evs. log w' = log w @ evs \<and> (\<forall>rq\<in>set (sends evs). P rq))"

text \<open>
  A call running from world \<open>w\<close> to world \<open>w'\<close> only adds events, and the requests among
  them are exactly \<open>rqs\<close>, in this order.
\<close>

definition sends_exactly :: "http_request list \<Rightarrow> world \<Rightarrow> world \<Rightarrow> bool" where
  "sends_exactly rqs w w' = (\<exists>evs. log w' = log w @ evs \<and> sends evs = rqs)"

text \<open>A client that was given no API key and no secret.\<close>

definition client_without_key :: OptionClient where
  "client_without_key = init None None None 5 3"

text \<open>The header that \<^verbatim>\<open>request\<close> builds is the header of a request.\<close>

definition carries_api_key :: "OptionClient \<Rightarrow> http_request \<Rightarrow> bool" where
  "carries_api_key c rq = (rq_headers rq = [(''X-MBX-APIKEY'', api_key c)])"

text \<open>
  Runtimes, a client and a starting world for the concrete runs below. The digest function
  stands in for HMAC-SHA256 (two bytes: the lengths of key and message); the clock advances
  by one millisecond a reading; no float occurs in the runs. With \<open>rt_ok\<close> the server answers every request with status
  200. With \<open>rt_example\<close> the first request times out, the second is answered with status
  404 and every later one with status 200. With \<open>rt_failing\<close> the first request times out
  and every later one is answered with status 500.
\<close>

definition rt_ok :: runtime where
  "rt_ok =
     \<lparr> float_str = (\<lambda>f. ''float''),
       hmac_sha256 = (\<lambda>key msg. [of_nat (length key), of_nat (length msg)]),
       time_ms = (\<lambda>k. 1700000000000 + int k),
       http = (\<lambda>k rq. Response 200 (Some (JStr ''ok''))) \<rparr>"

definition rt_example :: runtime where
  "rt_example =
     \<lparr> float_str = (\<lambda>f. ''float''),
       hmac_sha256 = (\<lambda>key msg. [of_nat (length key), of_nat (length msg)]),
       time_ms = (\<lambda>k. 1700000000000 + int k),
       http = (\<lambda>k rq. if k = 0 then Raised ''timed out''
                       else if k = 1 then Response 404 (Some (JStr ''not found''))
                       else Response 200 (Some (JStr ''ok''))) \<rparr>"

definition rt_failing :: runtime where
  "rt_failing =
     \<lparr> float_str = (\<lambda>f. ''float''),
       hmac_sha256 = (\<lambda>key msg. [of_nat (length key), of_nat (length msg)]),
       time_ms = (\<lambda>k. 1700000000000 + int k),
       http = (\<lambda>k rq. if k = 0 then Raised ''timed out''
                       else Response 500 (Some (JStr ''error''))) \<rparr>"

definition client_example :: OptionClient where
  "client_example = init (Some ''key'') (Some ''secret'') None 5 3"

definition world_start :: world where
  "world_start = \<lparr> ticks = 0, calls = 0, log = [] \<rparr>"

section \<open>Properties\<close>

subsection \<open>The attempt loop\<close>

text \<open>One iteration: a successful attempt returns, any other one leads to the next.\<close>

lemma attempts_Suc_ok:
  "http R (calls w) rq = Response 200 (Some j) \<Longrightarrow>
   attempts R (Suc n) path rq w = (Some j, w\<lparr>calls := Suc (calls w), log := log w @ [Send rq]\<rparr>)"
  by simp

lemma attempts_Suc_fail:
  "\<not> succeeds (http R (calls w) rq) \<Longrightarrow>
   attempts R (Suc n) path rq w =
     attempts R n path rq
       (w\<lparr>calls := Suc (calls w), log := log w @ failure_events path rq (http R (calls w) rq)\<rparr>)"
proof (cases "http R (calls w) rq")
  case (Raised err)
  then show ?thesis by (simp add: on_exception_def Let_def)
next
  case (Response status_code body)
  assume "\<not> succeeds (http R (calls w) rq)"
  with Response show ?thesis
    by (cases body) (auto simp: on_exception_def Let_def)
qed

declare attempts.simps(2) [simp del]

lemma attempts_all_fail:
  "\<forall>i<n. \<not> succeeds (http R (calls w + i) rq) \<Longrightarrow>
   attempts R n path rq w =
     (None, w\<lparr>calls := calls w + n,
              log := log w @ concat (map (\<lambda>i. failure_events path rq (http R (calls w + i) rq)) [0..<n])\<rparr>)"
proof (induction n arbitrary: w)
  case 0
  then show ?case by simp
next
  case (Suc n)
  let ?w1 = "w\<lparr>calls := Suc (calls w), log := log w @ failure_events path rq (http R (calls w) rq)\<rparr>"
  from Suc.prems have first: "\<not> succeeds (http R (calls w) rq)"
    by (metis add.right_neutral zero_less_Suc)
  from Suc.prems have rest: "\<forall>i<n. \<not> succeeds (http R (calls ?w1 + i) rq)"
    by auto
  have "attempts R (Suc n) path rq w = attempts R n path rq ?w1"
    using first by (rule attempts_Suc_fail)
  also have "\<dots> = (None, ?w1\<lparr>calls := calls ?w1 + n,
      log := log ?w1 @ concat (map (\<lambda>i. failure_events path rq (http R (calls ?w1 + i) rq)) [0..<n])\<rparr>)"
    using rest by (rule Suc.IH)
  finally show ?case
    by (simp add: map_upt_Suc del: upt_Suc)
qed

lemma attempts_first_success:
  "k < n \<Longrightarrow> http R (calls w + k) rq = Response 200 (Some j) \<Longrightarrow>
   \<forall>i<k. \<not> succeeds (http R (calls w + i) rq) \<Longrightarrow>
   attempts R n path rq w =
     (Some j, w\<lparr>calls := calls w + Suc k,
                log := log w @ concat (map (\<lambda>i. failure_events path rq (http R (calls w + i) rq)) [0..<k])
                         @ [Send rq]\<rparr>)"
proof (induction k arbitrary: n w)
  case 0
  then obtain m where n: "n = Suc m" by (cases n) auto
  from 0 show ?case unfolding n by (simp add: attempts_Suc_ok)
next
  case (Suc k)
  then obtain m where n: "n = Suc m" by (cases n) auto
  let ?w1 = "w\<lparr>calls := Suc (calls w), log := log w @ failure_events path rq (http R (calls w) rq)\<rparr>"
  from Suc.prems have first: "\<not> succeeds (http R (calls w) rq)"
    by (metis add.right_neutral zero_less_Suc)
  from Suc.prems have rest: "\<forall>i<k. \<not> succeeds (http R (calls ?w1 + i) rq)"
    by auto
  from Suc.prems have hit: "http R (calls ?w1 + k) rq = Response 200 (Some j)"
    by simp
  from Suc.prems n have km: "k < m" by simp
  have "attempts R n path rq w = attempts R m path rq ?w1"
    unfolding n using first by (rule attempts_Suc_fail)
  also have "\<dots> = (Some j, ?w1\<lparr>calls := calls ?w1 + Suc k,
      log := log ?w1 @ concat (map (\<lambda>i. failure_events path rq (http R (calls ?w1 + i) rq)) [0..<k])
               @ [Send rq]\<rparr>)"
    using km hit rest by (rule Suc.IH)
  finally show ?case
    by (simp add: map_upt_Suc del: upt_Suc)
qed


lemma sends_append: "sends (xs @ ys) = sends xs @ sends ys"
  by (induction xs rule: sends.induct) simp_all

lemma sleeps_append: "sleeps (xs @ ys) = sleeps xs @ sleeps ys"
  by (induction xs rule: sleeps.induct) simp_all

lemma sends_failure_events: "sends (failure_events path rq out) = [rq]"
  by (cases "(path, rq, out)" rule: failure_events.cases) simp_all

lemma sleeps_failure_events: "sleeps (failure_events path rq out) = (if raises out then [3] else [])"
  by (cases "(path, rq, out)" rule: failure_events.cases) simp_all

lemma sends_failures:
  "sends (concat (map (\<lambda>i. failure_events path rq (f i)) xs)) = replicate (length xs) rq"
  by (induction xs) (simp_all add: sends_append sends_failure_events)

lemma sleeps_failures:
  "sleeps (concat (map (\<lambda>i. failure_events path rq (f i)) xs))
     = replicate (length (filter (\<lambda>i. raises (f i)) xs)) 3"
  by (induction xs) (simp_all add: sleeps_append sleeps_failure_events)

lemma emitted_append: "log w' = log w @ evs \<Longrightarrow> emitted w w' = evs"
  by (simp add: emitted_def)

lemma succeeds_cases: "succeeds out \<Longrightarrow> \<exists>j. out = Response 200 (Some j)"
  by (cases out rule: succeeds.cases) simp_all

lemma yields_200_succeeds: "\<not> yields_200 out \<Longrightarrow> \<not> succeeds out"
  by (cases out rule: succeeds.cases) simp_all

lemma attempts_log:
  "\<exists>evs. log (snd (attempts R n path rq w)) = log w @ evs \<and> set (sends evs) \<subseteq> {rq}
         \<and> ticks (snd (attempts R n path rq w)) = ticks w"
proof (induction n arbitrary: w)
  case 0
  then show ?case by simp
next
  case (Suc n)
  show ?case
  proof (cases "succeeds (http R (calls w) rq)")
    case True
    then obtain j where "http R (calls w) rq = Response 200 (Some j)"
      using succeeds_cases by blast
    then show ?thesis
      by (simp add: attempts_Suc_ok)
  next
    case False
    let ?w1 = "w\<lparr>calls := Suc (calls w), log := log w @ failure_events path rq (http R (calls w) rq)\<rparr>"
    from Suc.IH [of ?w1] obtain evs where
      evs: "log (snd (attempts R n path rq ?w1)) = log ?w1 @ evs" "set (sends evs) \<subseteq> {rq}"
           "ticks (snd (attempts R n path rq ?w1)) = ticks ?w1"
      by blast
    have step: "attempts R (Suc n) path rq w = attempts R n path rq ?w1"
      using False by (rule attempts_Suc_fail)
    have "log (snd (attempts R (Suc n) path rq w))
            = log w @ (failure_events path rq (http R (calls w) rq) @ evs)"
      using evs(1) by (simp add: step)
    moreover have "set (sends (failure_events path rq (http R (calls w) rq) @ evs)) \<subseteq> {rq}"
      using evs(2) by (simp add: sends_append sends_failure_events)
    moreover have "ticks (snd (attempts R (Suc n) path rq w)) = ticks w"
      using evs(3) by (simp add: step)
    ultimately show ?thesis by blast
  qed
qed

lemma request_Inr:
  "request_url R c path params verify = Inr url \<Longrightarrow>
   request R c req_method path params verify w =
     (Inr (fst (attempts R (nat (try_counts c)) path (http_request_of c req_method url) w)),
      snd (attempts R (nat (try_counts c)) path (http_request_of c req_method url) w))"
  by (simp add: request_def http_request_of_def split: prod.splits)

lemma request_Inl:
  "request_url R c path params verify = Inl e \<Longrightarrow>
   request R c req_method path params verify w = (Inl e, w)"
  by (simp add: request_def)

lemma request_log:
  "\<exists>evs. log (snd (request R c req_method path params verify w)) = log w @ evs
     \<and> ticks (snd (request R c req_method path params verify w)) = ticks w
     \<and> (\<forall>rq\<in>set (sends evs). \<exists>url. request_url R c path params verify = Inr url
            \<and> rq = http_request_of c req_method url)"
proof (cases "request_url R c path params verify")
  case (Inl e)
  then show ?thesis by (simp add: request_Inl)
next
  case (Inr url)
  from attempts_log [of R "nat (try_counts c)" path "http_request_of c req_method url" w]
  obtain evs where
    "log (snd (attempts R (nat (try_counts c)) path (http_request_of c req_method url) w)) = log w @ evs"
    "set (sends evs) \<subseteq> {http_request_of c req_method url}"
    "ticks (snd (attempts R (nat (try_counts c)) path (http_request_of c req_method url) w)) = ticks w"
    by blast
  with Inr show ?thesis
    by (auto simp: request_Inr)
qed

subsection \<open>Requests of the operations\<close>

lemma sends_onlyI:
  "log w' = log w @ evs \<Longrightarrow> (\<And>rq. rq \<in> set (sends evs) \<Longrightarrow> P rq) \<Longrightarrow> sends_only P w w'"
  unfolding sends_only_def by blast

lemma sends_only_refl: "sends_only P w w"
  by (rule sends_onlyI [of _ _ "[]"]) simp_all

lemma sends_only_mono:
  "sends_only P w w' \<Longrightarrow> (\<And>rq. P rq \<Longrightarrow> Q rq) \<Longrightarrow> sends_only Q w w'"
  unfolding sends_only_def by blast

lemma sends_only_start:
  "sends_only P w1 w' \<Longrightarrow> sends pre = [] \<Longrightarrow> log w1 = log w @ pre \<Longrightarrow> sends_only P w w'"
  unfolding sends_only_def by (auto simp: sends_append)

lemma sends_only_trans:
  "sends_only P w w1 \<Longrightarrow> sends_only P w1 w' \<Longrightarrow> sends_only P w w'"
  unfolding sends_only_def by (auto simp: sends_append)

lemma sends_only_sent:
  "sends_only P w w' \<Longrightarrow> rq \<in> set (requests_sent w w') \<Longrightarrow> P rq"
  unfolding sends_only_def requests_sent_def emitted_def by auto

lemma sends_only_request:
  "sends_only (\<lambda>rq. \<exists>url. request_url R c path params verify = Inr url
                       \<and> rq = http_request_of c req_method url)
     w (snd (request R c req_method path params verify w))"
  using request_log [of R c req_method path params verify w]
  unfolding sends_only_def by blast

lemma carries_api_key_request_of: "carries_api_key c (http_request_of c req_method url)"
  by (simp add: carries_api_key_def http_request_of_def)

lemma request_key:
  "sends_only (carries_api_key c) w (snd (request R c req_method path params verify w))"
  by (rule sends_only_mono [OF sends_only_request]) (auto simp: carries_api_key_request_of)

lemma request_key_from:
  "sends pre = [] \<Longrightarrow> log w1 = log w @ pre \<Longrightarrow>
   sends_only (carries_api_key c) w (snd (request R c req_method path params verify w1))"
  by (rule sends_only_start [OF request_key])

lemma get_ping_key: "sends_only (carries_api_key c) w (snd (get_ping R c w))"
  by (simp add: get_ping_def request_key)

lemma get_server_time_key: "sends_only (carries_api_key c) w (snd (get_server_time R c w))"
  by (simp add: get_server_time_def request_key)

lemma get_option_info_key: "sends_only (carries_api_key c) w (snd (get_option_info R c w))"
  by (simp add: get_option_info_def request_key)

lemma get_exchange_info_key: "sends_only (carries_api_key c) w (snd (get_exchange_info R c w))"
  by (simp add: get_exchange_info_def request_key)

lemma get_index_key: "sends_only (carries_api_key c) w (snd (get_index R c underlying w))"
  by (simp add: get_index_def request_key)

lemma get_ticker_key: "sends_only (carries_api_key c) w (snd (get_ticker R c symbol w))"
  by (simp add: get_ticker_def request_key Let_def)

lemma get_mark_key: "sends_only (carries_api_key c) w (snd (get_mark R c symbol w))"
  by (simp add: get_mark_def request_key Let_def)

lemma get_order_book_key:
  "sends_only (carries_api_key c) w (snd (get_order_book R c symbol limit w))"
  unfolding get_order_book_def Let_def
  by (rule request_key_from) simp_all

lemma get_kline_key:
  "sends_only (carries_api_key c) w (snd (get_kline R c symbol interval start_time end_time limit w))"
  unfolding get_kline_def by (rule request_key)

lemma get_trades_key: "sends_only (carries_api_key c) w (snd (get_trades R c symbol limit w))"
  unfolding get_trades_def Let_def by (rule request_key)

lemma get_historical_trades_key:
  "sends_only (carries_api_key c) w (snd (get_historical_trades R c symbol from_id limit w))"
  unfolding get_historical_trades_def Let_def by (rule request_key)

lemma get_listen_key_key: "sends_only (carries_api_key c) w (snd (get_listen_key R c w))"
  unfolding get_listen_key_def get_timestamp_def Let_def prod.case
  by (rule request_key_from [of "[]"]) simp_all

lemma extend_listen_key_key:
  "sends_only (carries_api_key c) w (snd (extend_listen_key R c listen_key w))"
  unfolding extend_listen_key_def get_timestamp_def Let_def prod.case
  by (rule request_key_from [of "[]"]) simp_all

lemma get_order_key:
  "sends_only (carries_api_key c) w (snd (get_order R c symbol client_order_id w))"
  unfolding get_order_def get_timestamp_def Let_def prod.case
  by (rule request_key_from [of "[]"]) simp_all

lemma get_open_orders_key:
  "sends_only (carries_api_key c) w (snd (get_open_orders R c symbol w))"
  unfolding get_open_orders_def get_timestamp_def Let_def prod.case
  by (rule request_key_from [of "[]"]) simp_all

lemma cancel_open_orders_key:
  "sends_only (carries_api_key c) w (snd (cancel_open_orders R c symbol w))"
  unfolding cancel_open_orders_def get_timestamp_def Let_def prod.case
  by (rule request_key_from [of "[]"]) simp_all

lemma get_account_info_key:
  "sends_only (carries_api_key c) w (snd (get_account_info R c w))"
  unfolding get_account_info_def get_timestamp_def Let_def prod.case
  by (rule request_key_from [of "[]"]) simp_all

lemma cancel_attempts_sends:
  assumes "\<And>w. sends_only P w (snd (request R c DELETE ''/api/v1/order'' (Some params) True w))"
  shows "sends_only P w (snd (cancel_attempts n R c params w))"
proof (induction n arbitrary: w)
  case 0
  show ?case by (simp add: sends_only_refl)
next
  case (Suc n)
  obtain r w1 where run: "request R c DELETE ''/api/v1/order'' (Some params) True w = (r, w1)"
    by (cases "request R c DELETE ''/api/v1/order'' (Some params) True w")
  from assms [of w] run have first: "sends_only P w w1" by simp
  show ?case
  proof (cases r)
    case (Inr order)
    with run first show ?thesis by simp
  next
    case (Inl e)
    let ?w2 = "w1\<lparr>log := log w1 @ [Print_cancel_error e]\<rparr>"
    have "sends_only P w1 (snd (cancel_attempts n R c params ?w2))"
      by (rule sends_only_start [OF Suc.IH [of ?w2], of "[Print_cancel_error e]"]) simp_all
    with first have "sends_only P w (snd (cancel_attempts n R c params ?w2))"
      by (rule sends_only_trans)
    with run Inl show ?thesis by simp
  qed
qed

lemma cancel_order_key:
  "sends_only (carries_api_key c) w (snd (cancel_order R c symbol client_order_id w))"
proof -
  let ?w1 = "w\<lparr>ticks := Suc (ticks w)\<rparr>"
  let ?ps = "cancel_order_params symbol (time_ms R (ticks w)) client_order_id"
  have "sends_only (carries_api_key c) ?w1 (snd (cancel_attempts 3 R c ?ps ?w1))"
    by (rule cancel_attempts_sends) (rule request_key)
  then have "sends_only (carries_api_key c) w (snd (cancel_attempts 3 R c ?ps ?w1))"
    by (rule sends_only_start [of _ _ _ "[]"]) simp_all
  then show ?thesis
    by (simp add: cancel_order_def get_timestamp_def Let_def case_prod_beta)
qed

lemma get_client_order_id_log: "log (snd (snd (get_client_order_id R c w))) = log w"
  by (simp add: get_client_order_id_def get_timestamp_def Let_def)

lemma get_client_order_id_client:
  "fst (snd (get_client_order_id R c w)) = c\<lparr>order_count := order_count c + 1\<rparr>"
  by (simp add: get_client_order_id_def get_timestamp_def Let_def)

subsection \<open>Signed requests\<close>

lemma hex_digit_lowercase: "hex_digit n \<in> set ''0123456789abcdef''"
  unfolding hex_digit_def by (rule nth_mem) simp

lemma hexdigest_lowercase: "set (hexdigest bs) \<subseteq> set ''0123456789abcdef''"
proof -
  define S where "S = set ''0123456789abcdef''"
  have "hex_digit n \<in> S" for n
    unfolding S_def by (rule hex_digit_lowercase)
  then have "set (hexdigest bs) \<subseteq> S"
    by (auto simp: hexdigest_def)
  then show ?thesis
    unfolding S_def .
qed

lemma length_hexdigest: "length (hexdigest bs) = 2 * length bs"
  by (induction bs) (simp_all add: hexdigest_def)

text \<open>
  Signing: for every dictionary and every secret that is present, the result is the string of
  the encoder, \<^verbatim>\<open>&signature=\<close>, and the lowercase hexadecimal digest over exactly that
  string under the secret.
\<close>

lemma sign_appends_signature:
  assumes "api_secret c = Some secret"
  shows "sign R c (Some params) =
           Inr (build_parameters R params @ ''&signature=''
                @ hexdigest (hmac_sha256 R (encode_utf8 secret)
                    (encode_utf8 (build_parameters R params))))
     \<and> set (hexdigest (hmac_sha256 R (encode_utf8 secret)
                (encode_utf8 (build_parameters R params)))) \<subseteq> set ''0123456789abcdef''"
  using assms hexdigest_lowercase
  by (simp add: sign_def Let_def)

lemma request_url_signed:
  "request_url R c path (Some params) True = Inr url \<Longrightarrow>
   signed_by R c path params (http_request_of c req_method url)"
  by (auto simp: request_url_def sign_def signed_by_def http_request_of_def Let_def
      split: option.splits sum.splits)

lemma request_signed:
  "sends_only (signed_by R c path params) w
     (snd (request R c req_method path (Some params) True w))"
  by (rule sends_only_mono [OF sends_only_request]) (auto simp: request_url_signed)

lemma request_signed_from:
  "sends pre = [] \<Longrightarrow> log w1 = log w @ pre \<Longrightarrow>
   sends_only (signed_by R c path params) w
     (snd (request R c req_method path (Some params) True w1))"
  by (rule sends_only_start [OF request_signed])

lemma get_listen_key_signed:
  "sends_only (signed_by R c ''/api/v1/userDataStream'' (listen_key_params (time_ms R (ticks w))))
     w (snd (get_listen_key R c w))"
  unfolding get_listen_key_def get_timestamp_def Let_def prod.case
  by (rule request_signed_from [of "[]"]) simp_all

lemma extend_listen_key_signed:
  "sends_only (signed_by R c ''/api/v1/userDataStream''
       (extend_listen_key_params (time_ms R (ticks w)) listen_key))
     w (snd (extend_listen_key R c listen_key w))"
  unfolding extend_listen_key_def get_timestamp_def Let_def prod.case
  by (rule request_signed_from [of "[]"]) simp_all

lemma get_order_signed:
  "sends_only (signed_by R c ''/api/v1/order''
       (get_order_params symbol (time_ms R (ticks w)) client_order_id))
     w (snd (get_order R c symbol client_order_id w))"
  unfolding get_order_def get_timestamp_def Let_def prod.case
  by (rule request_signed_from [of "[]"]) simp_all

lemma get_open_orders_signed:
  "sends_only (signed_by R c ''/api/v1/openOrders''
       (get_open_orders_params (time_ms R (ticks w)) symbol))
     w (snd (get_open_orders R c symbol w))"
  unfolding get_open_orders_def get_timestamp_def Let_def prod.case
  by (rule request_signed_from [of "[]"]) simp_all

lemma cancel_open_orders_signed:
  "sends_only (signed_by R c ''/api/v1/openOrders''
       (cancel_open_orders_params c (time_ms R (ticks w)) symbol))
     w (snd (cancel_open_orders R c symbol w))"
  unfolding cancel_open_orders_def get_timestamp_def Let_def prod.case
  by (rule request_signed_from [of "[]"]) simp_all

lemma get_account_info_signed:
  "sends_only (signed_by R c ''/api/v1/account'' (get_account_info_params c (time_ms R (ticks w))))
     w (snd (get_account_info R c w))"
  unfolding get_account_info_def get_timestamp_def Let_def prod.case
  by (rule request_signed_from [of "[]"]) simp_all

lemma cancel_order_signed:
  "sends_only (signed_by R c ''/api/v1/order''
       (cancel_order_params symbol (time_ms R (ticks w)) client_order_id))
     w (snd (cancel_order R c symbol client_order_id w))"
proof -
  let ?w1 = "w\<lparr>ticks := Suc (ticks w)\<rparr>"
  let ?ps = "cancel_order_params symbol (time_ms R (ticks w)) client_order_id"
  have "sends_only (signed_by R c ''/api/v1/order'' ?ps) ?w1 (snd (cancel_attempts 3 R c ?ps ?w1))"
    by (rule cancel_attempts_sends) (rule request_signed)
  then have "sends_only (signed_by R c ''/api/v1/order'' ?ps) w (snd (cancel_attempts 3 R c ?ps ?w1))"
    by (rule sends_only_start [of _ _ _ "[]"]) simp_all
  then show ?thesis
    by (simp add: cancel_order_def get_timestamp_def Let_def case_prod_beta)
qed

text \<open>The counter of the client is the only field an order id changes.\<close>

lemma signed_by_order_count [simp]:
  "signed_by R (c\<lparr>order_count := n\<rparr>) path params rq = signed_by R c path params rq"
  by (simp add: signed_by_def split: option.splits)

lemma carries_api_key_order_count [simp]:
  "carries_api_key (c\<lparr>order_count := n\<rparr>) rq = carries_api_key c rq"
  by (simp add: carries_api_key_def)

lemma place_order_params_order_count [simp]:
  "place_order_params (c\<lparr>order_count := n\<rparr>) = place_order_params c"
  by (rule ext)+ (simp add: place_order_params_def)

lemma place_order_sends:
  "sends_only (\<lambda>rq. carries_api_key c rq \<and>
        (\<exists>coid ts ps. place_order_params c symbol side order_type quantity price coid tif
                         stop_price ts = Inr ps
                     \<and> signed_by R c ''/api/v1/order'' ps rq))
     w (snd (snd (place_order R c symbol side order_type quantity price client_order_id tif
                    stop_price w)))"
proof -
  obtain coid c1 w1 where id:
    "(if client_order_id = PNone then
        (let (i, c', w') = get_client_order_id R c w in (PStr i, c', w'))
      else (client_order_id, c, w)) = (coid, c1, w1)"
    by (metis prod_cases3)
  then have c1: "c1 = c \<or> c1 = c\<lparr>order_count := order_count c + 1\<rparr>" and w1: "log w1 = log w"
    by (auto simp: get_client_order_id_def get_timestamp_def Let_def split: if_splits)
  let ?ts = "time_ms R (ticks w1)"
  let ?w2 = "w1\<lparr>ticks := Suc (ticks w1)\<rparr>"
  let ?P = "\<lambda>rq. carries_api_key c rq \<and>
        (\<exists>coid ts ps. place_order_params c symbol side order_type quantity price coid tif
                         stop_price ts = Inr ps
                     \<and> signed_by R c ''/api/v1/order'' ps rq)"
  show ?thesis
  proof (cases "place_order_params c1 symbol side order_type quantity price coid tif stop_price ?ts")
    case (Inl e)
    have "sends_only ?P w ?w2"
      by (rule sends_onlyI [of _ _ "[]"]) (simp_all add: w1)
    with id Inl show ?thesis
      by (simp add: place_order_def get_timestamp_def Let_def)
  next
    case (Inr ps)
    from Inr c1 have ps: "place_order_params c symbol side order_type quantity price coid tif
       stop_price ?ts = Inr ps"
      by auto
    have "sends_only (\<lambda>rq. signed_by R c1 ''/api/v1/order'' ps rq \<and> carries_api_key c1 rq) w
            (snd (request R c1 POST ''/api/v1/order'' (Some ps) True ?w2))"
      by (rule sends_only_start [of _ _ _ "[]"])
         (rule sends_only_mono [OF sends_only_request],
          auto simp: request_url_signed carries_api_key_request_of w1)
    then have "sends_only ?P w (snd (request R c1 POST ''/api/v1/order'' (Some ps) True ?w2))"
    proof (rule sends_only_mono)
      fix rq
      assume "signed_by R c1 ''/api/v1/order'' ps rq \<and> carries_api_key c1 rq"
      with c1 have "signed_by R c ''/api/v1/order'' ps rq" and "carries_api_key c rq"
        by auto
      with ps show "?P rq" by blast
    qed
    with id Inr show ?thesis
      by (simp add: place_order_def get_timestamp_def Let_def case_prod_beta)
  qed
qed

subsection \<open>Shaping of orders, and what the operations send\<close>

lemma attempts_Suc_sends: "sends (emitted w (snd (attempts R (Suc n) path rq w))) \<noteq> []"
proof (cases "succeeds (http R (calls w) rq)")
  case True
  then obtain j where "http R (calls w) rq = Response 200 (Some j)"
    using succeeds_cases by blast
  then show ?thesis
    by (simp add: attempts_Suc_ok emitted_def)
next
  case False
  let ?w1 = "w\<lparr>calls := Suc (calls w), log := log w @ failure_events path rq (http R (calls w) rq)\<rparr>"
  from attempts_log [of R n path rq ?w1] obtain evs where
    "log (snd (attempts R n path rq ?w1)) = log ?w1 @ evs"
    by blast
  then have "emitted w (snd (attempts R (Suc n) path rq w))
      = failure_events path rq (http R (calls w) rq) @ evs"
    by (simp add: attempts_Suc_fail [OF False] emitted_def)
  then show ?thesis
    by (simp add: sends_append sends_failure_events)
qed

lemma request_sends:
  assumes "request_url R c path params verify = Inr url" and "0 < try_counts c"
  shows "requests_sent w (snd (request R c req_method path params verify w)) \<noteq> []"
proof -
  from assms(2) obtain n where "nat (try_counts c) = Suc n"
    by (cases "nat (try_counts c)") auto
  then show ?thesis
    by (simp add: request_Inr [OF assms(1)] requests_sent_def attempts_Suc_sends)
qed

lemma py_le_zero_not_gt: "py_le_zero v = Inr True \<Longrightarrow> py_gt_zero v = Inr False"
  by (cases v rule: py_le_zero.cases) auto

lemma place_order_params_stop:
  "py_gt_zero stop_price = Inr True \<Longrightarrow>
   place_order_params c symbol side STOP quantity price coid tif stop_price ts =
     Inr [(''symbol'', symbol), (''side'', PStr (OrderSide_value side)), (''type'', PStr ''STOP''),
          (''quantity'', quantity), (''price'', price), (''recvWindow'', PInt (recv_window c)),
          (''timestamp'', PInt ts), (''newClientOrderId'', coid),
          (''stopPrice'', stop_price)]"
  by (simp add: place_order_params_def)

lemma place_order_params_stop_rejected:
  "py_gt_zero stop_price = Inr False \<Longrightarrow>
   place_order_params c symbol side STOP quantity price coid tif stop_price ts =
     Inl (ValueError ''stopPrice must greater than 0'')"
  by (simp add: place_order_params_def)

lemma place_order_rejected:
  assumes "\<And>c' coid ts. place_order_params c' symbol side order_type quantity price coid tif
             stop_price ts = Inl e"
  shows "fst (place_order R c symbol side order_type quantity price client_order_id tif
                stop_price w) = Inl e
     \<and> log (snd (snd (place_order R c symbol side order_type quantity price client_order_id tif
                stop_price w))) = log w
     \<and> calls (snd (snd (place_order R c symbol side order_type quantity price client_order_id tif
                stop_price w))) = calls w"
  by (simp add: place_order_def get_client_order_id_def get_timestamp_def Let_def assms)

lemma request_error:
  "fst (request R c req_method path params verify w) = Inl e \<Longrightarrow> \<exists>a. e = AttributeError a"
  by (auto simp: request_def request_url_def sign_def Let_def case_prod_beta
      split: if_splits sum.splits option.splits)

lemma place_order_accepted:
  assumes "\<And>c' coid ts. \<exists>ps. place_order_params c' symbol side order_type quantity price coid tif
             stop_price ts = Inr ps"
  shows "fst (place_order R c symbol side order_type quantity price client_order_id tif
                stop_price w) \<noteq> Inl (ValueError msg)"
proof -
  obtain coid c1 w1 where id:
    "(if client_order_id = PNone then
        (let (i, c', w') = get_client_order_id R c w in (PStr i, c', w'))
      else (client_order_id, c, w)) = (coid, c1, w1)"
    by (metis prod_cases3)
  from assms obtain ps where ps: "place_order_params c1 symbol side order_type quantity price coid
      tif stop_price (time_ms R (ticks w1)) = Inr ps"
    by blast
  have "fst (request R c1 POST ''/api/v1/order'' (Some ps) True (w1\<lparr>ticks := Suc (ticks w1)\<rparr>))
      \<noteq> Inl (ValueError msg)"
    using request_error by blast
  with id ps show ?thesis
    by (simp add: place_order_def get_timestamp_def Let_def case_prod_beta)
qed

lemma place_order_market_truthy_price:
  "py_truthy price \<Longrightarrow>
   place_order_params c symbol side MARKET quantity price coid tif stop_price ts =
     Inr [(''symbol'', symbol), (''side'', PStr (OrderSide_value side)), (''type'', PStr ''MARKET''),
          (''quantity'', quantity), (''recvWindow'', PInt (recv_window c)),
          (''timestamp'', PInt ts), (''newClientOrderId'', coid)]"
  by (simp add: place_order_params_def dict_get_def dict_delitem_def)

lemma place_order_market_falsy_price:
  "\<not> py_truthy price \<Longrightarrow>
   place_order_params c symbol side MARKET quantity price coid tif stop_price ts =
     Inr [(''symbol'', symbol), (''side'', PStr (OrderSide_value side)), (''type'', PStr ''MARKET''),
          (''quantity'', quantity), (''price'', price), (''recvWindow'', PInt (recv_window c)),
          (''timestamp'', PInt ts), (''newClientOrderId'', coid)]"
  by (simp add: place_order_params_def dict_get_def dict_delitem_def)

lemma sent_signed_by:
  "sends_only (signed_by R c path params) w w' \<Longrightarrow>
   \<forall>rq\<in>set (requests_sent w w'). signed_by R c path params rq"
  using sends_only_sent [of "signed_by R c path params" w w'] by blast

lemma place_order_params_window:
  "place_order_params c symbol side order_type quantity price coid tif stop_price ts = Inr ps \<Longrightarrow>
   map_of ps ''timestamp'' = Some (PInt ts) \<and> map_of ps ''recvWindow'' = Some (PInt (recv_window c))"
  by (cases order_type)
     (auto simp: place_order_params_def dict_get_def dict_delitem_def Let_def
       split: if_splits sum.splits)

lemma place_order_signed:
  "\<forall>rq\<in>set (requests_sent w (snd (snd (place_order R c symbol side order_type quantity price
        client_order_id tif stop_price w)))).
     \<exists>coid ts ps. place_order_params c symbol side order_type quantity price coid tif stop_price ts
                    = Inr ps
       \<and> signed_by R c ''/api/v1/order'' ps rq"
  using sends_only_sent [OF place_order_sends] by blast

lemma sent_carries_api_key:
  "sends_only (carries_api_key c) w w' \<Longrightarrow>
   \<forall>rq\<in>set (requests_sent w w'). rq_headers rq = [(''X-MBX-APIKEY'', api_key c)]"
  using sends_only_sent [of "carries_api_key c" w w'] by (auto simp: carries_api_key_def)

lemma every_operation_carries_api_key:
  "sends_only (carries_api_key c) w (snd (get_option_info R c w))
   \<and> sends_only (carries_api_key c) w (snd (get_exchange_info R c w))
   \<and> sends_only (carries_api_key c) w (snd (get_index R c underlying w))
   \<and> sends_only (carries_api_key c) w (snd (get_ticker R c symbol w))
   \<and> sends_only (carries_api_key c) w (snd (get_mark R c symbol w))
   \<and> sends_only (carries_api_key c) w (snd (get_trades R c symbol limit w))
   \<and> sends_only (carries_api_key c) w (snd (get_historical_trades R c symbol from_id limit w))
   \<and> sends_only (carries_api_key c) w (snd (get_listen_key R c w))
   \<and> sends_only (carries_api_key c) w (snd (extend_listen_key R c listen_key w))
   \<and> sends_only (carries_api_key c) w
        (snd (snd (place_order R c symbol side order_type quantity price client_order_id tif
                     stop_price w)))
   \<and> sends_only (carries_api_key c) w (snd (get_order R c symbol client_order_id w))
   \<and> sends_only (carries_api_key c) w (snd (cancel_order R c symbol client_order_id w))
   \<and> sends_only (carries_api_key c) w (snd (get_open_orders R c symbol w))
   \<and> sends_only (carries_api_key c) w (snd (cancel_open_orders R c symbol w))
   \<and> sends_only (carries_api_key c) w (snd (get_account_info R c w))"
  by (intro conjI get_option_info_key get_exchange_info_key get_index_key get_ticker_key
      get_mark_key get_trades_key get_historical_trades_key get_listen_key_key
      extend_listen_key_key get_order_key cancel_order_key get_open_orders_key
      cancel_open_orders_key get_account_info_key
      sends_only_mono [OF place_order_sends]) simp

subsection \<open>The requests of a call, exactly\<close>

lemma attempts_made_pos: "0 < n \<Longrightarrow> 0 < attempts_made R n rq k"
  by (cases n) auto

lemma attempts_made_le: "attempts_made R n rq k \<le> n"
  by (induction n arbitrary: k) auto

lemma attempts_sends_exactly:
  "sends_exactly (replicate (attempts_made R n rq (calls w)) rq) w (snd (attempts R n path rq w))"
proof (induction n arbitrary: w)
  case 0
  show ?case by (simp add: sends_exactly_def)
next
  case (Suc n)
  show ?case
  proof (cases "succeeds (http R (calls w) rq)")
    case True
    then obtain j where "http R (calls w) rq = Response 200 (Some j)"
      using succeeds_cases by blast
    with True show ?thesis
      by (simp add: attempts_Suc_ok sends_exactly_def)
  next
    case False
    let ?w1 = "w\<lparr>calls := Suc (calls w), log := log w @ failure_events path rq (http R (calls w) rq)\<rparr>"
    from Suc.IH [of ?w1] obtain evs where
      evs: "log (snd (attempts R n path rq ?w1)) = log ?w1 @ evs"
           "sends evs = replicate (attempts_made R n rq (calls ?w1)) rq"
      unfolding sends_exactly_def by blast
    have step: "attempts R (Suc n) path rq w = attempts R n path rq ?w1"
      using False by (rule attempts_Suc_fail)
    have "log (snd (attempts R (Suc n) path rq w))
            = log w @ (failure_events path rq (http R (calls w) rq) @ evs)"
      using evs(1) by (simp add: step)
    moreover have "sends (failure_events path rq (http R (calls w) rq) @ evs)
            = replicate (attempts_made R (Suc n) rq (calls w)) rq"
      using evs(2) False by (simp add: sends_append sends_failure_events)
    ultimately show ?thesis
      unfolding sends_exactly_def by blast
  qed
qed

lemma sends_exactly_sent: "sends_exactly rqs w w' \<Longrightarrow> requests_sent w w' = rqs"
  unfolding sends_exactly_def requests_sent_def emitted_def by auto

lemma sends_exactly_start:
  "sends_exactly rqs w1 w' \<Longrightarrow> sends pre = [] \<Longrightarrow> log w1 = log w @ pre \<Longrightarrow>
   sends_exactly rqs w w'"
  unfolding sends_exactly_def by (auto simp: sends_append)

lemma loop_sends_same_calls:
  "calls w1 = calls w \<Longrightarrow> loop_sends R c rq w1 = loop_sends R c rq w"
  by (simp add: loop_sends_def)

lemma loop_sends_nonempty: "0 < try_counts c \<Longrightarrow> loop_sends R c rq w \<noteq> []"
  using attempts_made_pos [of "nat (try_counts c)" R rq "calls w"]
  by (simp add: loop_sends_def)

lemma http_request_of_plain: "http_request_of c req_method url = plain_request c req_method url"
  by (simp add: http_request_of_def plain_request_def)

lemma request_sends_exactly:
  "request_url R c path params verify = Inr url \<Longrightarrow>
   sends_exactly (loop_sends R c (plain_request c req_method url) w) w
     (snd (request R c req_method path params verify w))"
  using attempts_sends_exactly [of R "nat (try_counts c)" "plain_request c req_method url" w path]
  by (simp add: request_Inr http_request_of_plain loop_sends_def)

lemma request_sends_nothing:
  "request_url R c path params verify = Inl e \<Longrightarrow>
   sends_exactly [] w (snd (request R c req_method path params verify w))"
  by (simp add: request_Inl sends_exactly_def)

lemma request_sends_exactly_from:
  assumes "request_url R c path params verify = Inr url" and "calls w1 = calls w"
    and "sends pre = []" and "log w1 = log w @ pre"
  shows "sends_exactly (loop_sends R c (plain_request c req_method url) w) w
     (snd (request R c req_method path params verify w1))"
proof -
  have "sends_exactly (loop_sends R c (plain_request c req_method url) w1) w1
     (snd (request R c req_method path params verify w1))"
    using assms(1) by (rule request_sends_exactly)
  then have "sends_exactly (loop_sends R c (plain_request c req_method url) w) w1
     (snd (request R c req_method path params verify w1))"
    by (simp add: loop_sends_same_calls [OF assms(2)])
  then show ?thesis
    using assms(3) assms(4) by (rule sends_exactly_start)
qed

lemma request_url_signed_request:
  "api_secret c = Some secret \<Longrightarrow>
   request_url R c path (Some params) True
     = Inr (rq_url (signed_request R c secret req_method path params))"
  by (simp add: request_url_def sign_def signed_request_def Let_def)

lemma plain_signed_request:
  "plain_request c req_method (rq_url (signed_request R c secret req_method path params))
     = signed_request R c secret req_method path params"
  by (simp add: plain_request_def signed_request_def)

lemma signed_request_sends_exactly:
  assumes "api_secret c = Some secret" and "calls w1 = calls w"
    and "sends pre = []" and "log w1 = log w @ pre"
  shows "sends_exactly (loop_sends R c (signed_request R c secret req_method path params) w) w
     (snd (request R c req_method path (Some params) True w1))"
proof -
  have "request_url R c path (Some params) True
     = Inr (rq_url (signed_request R c secret req_method path params))"
    using assms(1) by (rule request_url_signed_request)
  from request_sends_exactly_from [OF this assms(2) assms(3) assms(4), of req_method]
  show ?thesis
    by (simp add: plain_signed_request)
qed

lemma get_listen_key_sends:
  "api_secret c = Some secret \<Longrightarrow>
   sends_exactly (loop_sends R c (signed_request R c secret POST ''/api/v1/userDataStream''
       (listen_key_params (time_ms R (ticks w)))) w) w (snd (get_listen_key R c w))"
  unfolding get_listen_key_def get_timestamp_def Let_def prod.case
  by (rule signed_request_sends_exactly [where pre = "[]"]) simp_all

lemma extend_listen_key_sends:
  "api_secret c = Some secret \<Longrightarrow>
   sends_exactly (loop_sends R c (signed_request R c secret PUT ''/api/v1/userDataStream''
       (extend_listen_key_params (time_ms R (ticks w)) listen_key)) w) w
     (snd (extend_listen_key R c listen_key w))"
  unfolding extend_listen_key_def get_timestamp_def Let_def prod.case
  by (rule signed_request_sends_exactly [where pre = "[]"]) simp_all

lemma get_order_sends:
  "api_secret c = Some secret \<Longrightarrow>
   sends_exactly (loop_sends R c (signed_request R c secret GET ''/api/v1/order''
       (get_order_params symbol (time_ms R (ticks w)) client_order_id)) w) w
     (snd (get_order R c symbol client_order_id w))"
  unfolding get_order_def get_timestamp_def Let_def prod.case
  by (rule signed_request_sends_exactly [where pre = "[]"]) simp_all

lemma get_open_orders_sends:
  "api_secret c = Some secret \<Longrightarrow>
   sends_exactly (loop_sends R c (signed_request R c secret GET ''/api/v1/openOrders''
       (get_open_orders_params (time_ms R (ticks w)) symbol)) w) w
     (snd (get_open_orders R c symbol w))"
  unfolding get_open_orders_def get_timestamp_def Let_def prod.case
  by (rule signed_request_sends_exactly [where pre = "[]"]) simp_all

lemma cancel_open_orders_sends:
  "api_secret c = Some secret \<Longrightarrow>
   sends_exactly (loop_sends R c (signed_request R c secret DELETE ''/api/v1/openOrders''
       (cancel_open_orders_params c (time_ms R (ticks w)) symbol)) w) w
     (snd (cancel_open_orders R c symbol w))"
  unfolding cancel_open_orders_def get_timestamp_def Let_def prod.case
  by (rule signed_request_sends_exactly [where pre = "[]"]) simp_all

lemma get_account_info_sends:
  "api_secret c = Some secret \<Longrightarrow>
   sends_exactly (loop_sends R c (signed_request R c secret GET ''/api/v1/account''
       (get_account_info_params c (time_ms R (ticks w)))) w) w
     (snd (get_account_info R c w))"
  unfolding get_account_info_def get_timestamp_def Let_def prod.case
  by (rule signed_request_sends_exactly [where pre = "[]"]) simp_all

lemma cancel_attempts_first:
  assumes "api_secret c = Some secret"
  shows "snd (cancel_attempts (Suc n) R c params w)
     = snd (request R c DELETE ''/api/v1/order'' (Some params) True w)"
proof -
  have "request_url R c ''/api/v1/order'' (Some params) True
     = Inr (rq_url (signed_request R c secret DELETE ''/api/v1/order'' params))"
    using assms by (rule request_url_signed_request)
  then show ?thesis
    by (simp add: request_Inr)
qed

lemma cancel_order_sends:
  assumes "api_secret c = Some secret"
  shows "sends_exactly (loop_sends R c (signed_request R c secret DELETE ''/api/v1/order''
       (cancel_order_params symbol (time_ms R (ticks w)) client_order_id)) w) w
     (snd (cancel_order R c symbol client_order_id w))"
proof -
  let ?w1 = "w\<lparr>ticks := Suc (ticks w)\<rparr>"
  let ?ps = "cancel_order_params symbol (time_ms R (ticks w)) client_order_id"
  have "sends_exactly (loop_sends R c (signed_request R c secret DELETE ''/api/v1/order'' ?ps) w) w
     (snd (request R c DELETE ''/api/v1/order'' (Some ?ps) True ?w1))"
    using assms by (rule signed_request_sends_exactly [where pre = "[]"]) simp_all
  moreover have "snd (cancel_attempts 3 R c ?ps ?w1)
      = snd (request R c DELETE ''/api/v1/order'' (Some ?ps) True ?w1)"
    using cancel_attempts_first [OF assms, of "Suc (Suc 0)" R ?ps ?w1]
    by (simp only: numeral_3_eq_3)
  moreover have "snd (cancel_order R c symbol client_order_id w)
      = snd (cancel_attempts 3 R c ?ps ?w1)"
    by (simp add: cancel_order_def get_timestamp_def Let_def case_prod_beta
        del: cancel_attempts.simps)
  ultimately show ?thesis
    by simp
qed

lemma signed_request_order_count [simp]:
  "signed_request R (c\<lparr>order_count := n\<rparr>) = signed_request R c"
  by (rule ext)+ (simp add: signed_request_def)

lemma loop_sends_order_count [simp]:
  "loop_sends R (c\<lparr>order_count := n\<rparr>) = loop_sends R c"
  by (rule ext)+ (simp add: loop_sends_def)

lemma place_order_sends_exactly:
  assumes "api_secret c = Some secret"
    and "place_order_params c symbol side order_type quantity price
           (order_id_used R c client_order_id w) tif stop_price
           (order_timestamp R client_order_id w) = Inr ps"
  shows "sends_exactly (loop_sends R c (signed_request R c secret POST ''/api/v1/order'' ps) w) w
     (snd (snd (place_order R c symbol side order_type quantity price client_order_id tif
                  stop_price w)))"
proof (cases "client_order_id = PNone")
  case True
  let ?c1 = "c\<lparr>order_count := order_count c + 1\<rparr>"
  let ?w2 = "w\<lparr>ticks := Suc (Suc (ticks w))\<rparr>"
  have secret: "api_secret ?c1 = Some secret"
    using assms(1) by simp
  have "sends_exactly (loop_sends R ?c1 (signed_request R ?c1 secret POST ''/api/v1/order'' ps) w) w
     (snd (request R ?c1 POST ''/api/v1/order'' (Some ps) True ?w2))"
    using secret by (rule signed_request_sends_exactly [where pre = "[]"]) simp_all
  with True assms(2) show ?thesis
    by (simp add: place_order_def get_client_order_id_def get_timestamp_def Let_def
        case_prod_beta order_id_used_def order_timestamp_def)
next
  case False
  let ?w2 = "w\<lparr>ticks := Suc (ticks w)\<rparr>"
  have "sends_exactly (loop_sends R c (signed_request R c secret POST ''/api/v1/order'' ps) w) w
     (snd (request R c POST ''/api/v1/order'' (Some ps) True ?w2))"
    using assms(1) by (rule signed_request_sends_exactly [where pre = "[]"]) simp_all
  with False assms(2) show ?thesis
    by (simp add: place_order_def get_timestamp_def Let_def case_prod_beta order_id_used_def
        order_timestamp_def)
qed

lemma dict_setitem_nonempty: "dict_setitem d k v \<noteq> []"
  by (cases d) (auto split: if_splits)

lemma get_kline_params_nonempty:
  "get_kline_params symbol interval start_time end_time limit \<noteq> []"
  by (simp add: get_kline_params_def Let_def dict_setitem_nonempty)

lemma get_order_book_params_nonempty: "get_order_book_params symbol limit \<noteq> []"
  by (simp add: get_order_book_params_def Let_def)

lemma get_ping_sends:
  "sends_exactly (loop_sends R c (plain_request c GET (host c @ ''/api/v1/ping'')) w) w
     (snd (get_ping R c w))"
  unfolding get_ping_def
  by (rule request_sends_exactly) (simp add: request_url_def)

lemma get_server_time_sends:
  "sends_exactly (loop_sends R c (plain_request c GET (host c @ ''/api/v1/time'')) w) w
     (snd (get_server_time R c w))"
  unfolding get_server_time_def
  by (rule request_sends_exactly) (simp add: request_url_def)

lemma get_order_book_sends:
  "sends_exactly (loop_sends R c (plain_request c GET
       (host c @ ''/api/v1/depth'' @ ''?''
          @ build_parameters R (get_order_book_params symbol limit))) w) w
     (snd (get_order_book R c symbol limit w))"
  unfolding get_order_book_def Let_def
  by (rule request_sends_exactly_from
        [where pre = "[Print_params (get_order_book_params symbol limit)]"])
     (simp_all add: request_url_def get_order_book_params_nonempty)

lemma get_kline_sends:
  "sends_exactly (loop_sends R c (plain_request c GET
       (host c @ ''/api/v1/klines'' @ ''?''
          @ build_parameters R (get_kline_params symbol interval start_time end_time limit))) w) w
     (snd (get_kline R c symbol interval start_time end_time limit w))"
  unfolding get_kline_def
  by (rule request_sends_exactly) (simp add: request_url_def get_kline_params_nonempty)

subsection \<open>The client order id, one call at a time\<close>

lemma init_order_count: "order_count (init key secret h tmo tries) = 1000000"
  by (simp add: init_def)

lemma get_client_order_id_increments:
  "get_client_order_id R c w =
     (''x-A6SIDXVS'' @ str_int (time_ms R (ticks w)) @ str_int (order_count c + 1),
      c\<lparr>order_count := order_count c + 1\<rparr>,
      w\<lparr>ticks := Suc (ticks w)\<rparr>)"
  by (simp add: get_client_order_id_def get_timestamp_def)

subsection \<open>The claims\<close>

lemma build_parameters_empty: "build_parameters R [] = []"
  by (simp add: build_parameters_def dict_keys_def)

text \<open>
  Claim C1 (parameter encoder, insertion order). The claim is that two mappings with the same
  key-value pairs in different insertion orders are encoded to the same string, the keys
  being sorted before joining. The code sorts a copy of the keys and then iterates over
  the dictionary itself: the mappings \<^verbatim>\<open>{'b': 1, 'a': 2}\<close> and \<^verbatim>\<open>{'a': 2, 'b': 1}\<close>
  hold the same pairs and are encoded to different strings, each in its own insertion order.
\<close>

theorem build_parameters_insertion_order:
  "build_parameters R [(''b'', PInt 1), (''a'', PInt 2)] = ''b=1&a=2''
   \<and> build_parameters R [(''a'', PInt 2), (''b'', PInt 1)] = ''a=2&b=1''
   \<and> set [(''b'', PInt 1), (''a'', PInt 2)] = set [(''a'', PInt 2), (''b'', PInt 1)]
   \<and> build_parameters R [(''b'', PInt 1), (''a'', PInt 2)]
       \<noteq> build_parameters R [(''a'', PInt 2), (''b'', PInt 1)]"
  by code_simp

text \<open>
  Claim C2, counterexample (attempt loop: what follows a response with another status than
  200). The claim says that a non-200 status never triggers another attempt. In the code
  the \<^verbatim>\<open>else\<close> branch prints body and status and the \<^verbatim>\<open>for\<close> loop goes on: with
  \<open>rt_example\<close> the second attempt is answered with status 404, and a third attempt follows,
  whose body the call returns.
\<close>

theorem request_retries_after_404:
  "http rt_example 1 (http_request_of client_example GET ''https://testnet.binanceops.com/api/v1/ping'')
     = Response 404 (Some (JStr ''not found''))
   \<and> request rt_example client_example GET ''/api/v1/ping'' None False world_start =
       (Inr (Some (JStr ''ok'')),
        \<lparr> ticks = 0, calls = 3,
          log = [Send (http_request_of client_example GET ''https://testnet.binanceops.com/api/v1/ping''),
                 Print_error ''/api/v1/ping'' ''timed out'',
                 Sleep 3,
                 Send (http_request_of client_example GET ''https://testnet.binanceops.com/api/v1/ping''),
                 Print_response (JStr ''not found'') 404,
                 Send (http_request_of client_example GET ''https://testnet.binanceops.com/api/v1/ping'')] \<rparr>)"
  by code_simp

text \<open>
  Claim C2, as amended. When the loop is reached (the URL was built) and attempt number \<open>k\<close>
  (counted from 0) is the first one answered with status 200 and a body that decodes, then
  each of the \<open>k\<close> attempts before it is followed by another attempt: at once after a
  response with another status, whose body and status are printed, and after a sleep of
  3 seconds after an attempt that raised (in \<^verbatim>\<open>requests.request\<close> or in decoding the
  body). The call returns the decoded body of attempt \<open>k\<close> immediately: \<open>k + 1\<close> requests
  are sent, and none of the remaining attempts is made.
\<close>

theorem request_returns_first_success:
  assumes "request_url R c path params verify = Inr url"
    and "k < nat (try_counts c)"
    and "http R (calls w + k) (http_request_of c req_method url) = Response 200 (Some j)"
    and "\<forall>i<k. \<not> succeeds (http R (calls w + i) (http_request_of c req_method url))"
  shows "fst (request R c req_method path params verify w) = Inr (Some j)
     \<and> emitted w (snd (request R c req_method path params verify w))
         = concat (map (\<lambda>i. failure_events path (http_request_of c req_method url)
                              (http R (calls w + i) (http_request_of c req_method url))) [0..<k])
           @ [Send (http_request_of c req_method url)]
     \<and> length (requests_sent w (snd (request R c req_method path params verify w))) = Suc k
     \<and> sleeps (emitted w (snd (request R c req_method path params verify w)))
         = replicate (length (filter (\<lambda>i. raises (http R (calls w + i)
                                (http_request_of c req_method url))) [0..<k])) 3"
proof -
  let ?rq = "http_request_of c req_method url"
  from attempts_first_success [OF assms(2) assms(3) assms(4), of path]
  have run: "attempts R (nat (try_counts c)) path ?rq w =
     (Some j, w\<lparr>calls := calls w + Suc k,
                log := log w @ concat (map (\<lambda>i. failure_events path ?rq (http R (calls w + i) ?rq)) [0..<k])
                         @ [Send ?rq]\<rparr>)" .
  show ?thesis
    by (simp add: request_Inr [OF assms(1)] run requests_sent_def emitted_def sends_append
        sleeps_append sends_failures sleeps_failures)
qed

theorem request_returns_first_success_witness:
  "fst (request rt_example client_example GET ''/api/v1/ping'' None False world_start)
     = Inr (Some (JStr ''ok''))
   \<and> length (requests_sent world_start
         (snd (request rt_example client_example GET ''/api/v1/ping'' None False world_start))) = 3
   \<and> sleeps (emitted world_start
         (snd (request rt_example client_example GET ''/api/v1/ping'' None False world_start))) = [3]"
proof -
  let ?rq = "http_request_of client_example GET ''https://testnet.binanceops.com/api/v1/ping''"
  have url: "request_url rt_example client_example ''/api/v1/ping'' None False
               = Inr ''https://testnet.binanceops.com/api/v1/ping''"
    by (simp add: request_url_def client_example_def init_def)
  have k: "2 < nat (try_counts client_example)"
    by (simp add: client_example_def init_def)
  have hit: "http rt_example (calls world_start + 2) ?rq = Response 200 (Some (JStr ''ok''))"
    by (simp add: rt_example_def world_start_def)
  have before: "\<forall>i<2. \<not> succeeds (http rt_example (calls world_start + i) ?rq)"
    by (simp add: rt_example_def world_start_def)
  have count: "length (filter (\<lambda>i. raises (http rt_example (calls world_start + i) ?rq)) [0..<2])
                 = Suc 0"
    by (simp add: rt_example_def upt_rec world_start_def)
  note run = request_returns_first_success [OF url k hit before]
  from run have result:
    "fst (request rt_example client_example GET ''/api/v1/ping'' None False world_start)
       = Inr (Some (JStr ''ok''))"
    by (rule conjunct1)
  from run have sent:
    "length (requests_sent world_start
       (snd (request rt_example client_example GET ''/api/v1/ping'' None False world_start))) = Suc 2"
    by (rule conjunct2 [THEN conjunct2, THEN conjunct1])
  from run have slept:
    "sleeps (emitted world_start
       (snd (request rt_example client_example GET ''/api/v1/ping'' None False world_start)))
       = replicate (length (filter (\<lambda>i. raises (http rt_example (calls world_start + i) ?rq)) [0..<2])) 3"
    by (rule conjunct2 [THEN conjunct2, THEN conjunct2])
  from result sent slept show ?thesis
    unfolding count by simp
qed

text \<open>
  Claim C3 (request signer). The claim is that \<^verbatim>\<open>_sign\<close> returns the canonical parameter
  string, which is independent of insertion order, with the signature computed over that
  canonical string. \<^verbatim>\<open>_sign\<close> appends the signature to the string of the encoder and
  computes it over exactly that string (lemma \<open>sign_appends_signature\<close>), but the encoder
  keeps insertion order, as under claim C1: for the dictionary of \<^verbatim>\<open>get_order\<close> the signed
  string starts with \<^verbatim>\<open>symbol\<close>, while the sorted keys start with
  \<^verbatim>\<open>origClientOrderId\<close>.
\<close>

theorem sign_keeps_insertion_order:
  "sign R client_example
     (Some (get_order_params (PStr ''BTC-200730-9000-C'') 1700000000000 (PStr ''id1'')))
     = Inr (''symbol=BTC-200730-9000-C&timestamp=1700000000000&origClientOrderId=id1''
            @ ''&signature=''
            @ hexdigest (hmac_sha256 R (encode_utf8 ''secret'')
                (encode_utf8 ''symbol=BTC-200730-9000-C&timestamp=1700000000000&origClientOrderId=id1'')))
   \<and> sort (dict_keys (get_order_params (PStr ''BTC-200730-9000-C'') 1700000000000 (PStr ''id1'')))
     = [''origClientOrderId'', ''symbol'', ''timestamp'']"
proof -
  have secret: "api_secret client_example = Some ''secret''"
    by (simp add: client_example_def init_def)
  have query: "build_parameters R
      (get_order_params (PStr ''BTC-200730-9000-C'') 1700000000000 (PStr ''id1''))
      = ''symbol=BTC-200730-9000-C&timestamp=1700000000000&origClientOrderId=id1''"
    by code_simp
  have sorted_keys:
    "sort (dict_keys (get_order_params (PStr ''BTC-200730-9000-C'') 1700000000000 (PStr ''id1'')))
     = [''origClientOrderId'', ''symbol'', ''timestamp'']"
    by code_simp
  have "sign R client_example
     (Some (get_order_params (PStr ''BTC-200730-9000-C'') 1700000000000 (PStr ''id1'')))
     = Inr (''symbol=BTC-200730-9000-C&timestamp=1700000000000&origClientOrderId=id1''
            @ ''&signature=''
            @ hexdigest (hmac_sha256 R (encode_utf8 ''secret'')
                (encode_utf8 ''symbol=BTC-200730-9000-C&timestamp=1700000000000&origClientOrderId=id1'')))"
    using secret by (simp add: sign_def query)
  with sorted_keys show ?thesis
    by (rule conjI [rotated])
qed

text \<open>
  Claim C5 (attempt loop: no attempt yields status 200). When the loop is reached (the URL
  was built, that is, signing did not raise before the loop) and every one of the attempts
  either raises or is answered with a status other than 200, the call sends exactly
  \<open>nat (try_counts c)\<close> requests, which is \<open>try_counts c\<close> for a count that is not negative,
  and then returns \<^verbatim>\<open>None\<close>: the result is \<open>Inr None\<close>, not an exception.
\<close>

theorem request_exhausts_attempts:
  assumes "request_url R c path params verify = Inr url"
    and "\<forall>i < nat (try_counts c).
           \<not> yields_200 (http R (calls w + i) (http_request_of c req_method url))"
  shows "fst (request R c req_method path params verify w) = Inr None
     \<and> requests_sent w (snd (request R c req_method path params verify w))
         = replicate (nat (try_counts c)) (http_request_of c req_method url)
     \<and> length (requests_sent w (snd (request R c req_method path params verify w)))
         = nat (try_counts c)"
proof -
  let ?rq = "http_request_of c req_method url"
  from assms(2) have "\<forall>i < nat (try_counts c). \<not> succeeds (http R (calls w + i) ?rq)"
    using yields_200_succeeds by blast
  from attempts_all_fail [OF this, of path]
  have run: "attempts R (nat (try_counts c)) path ?rq w =
     (None, w\<lparr>calls := calls w + nat (try_counts c),
              log := log w @ concat (map (\<lambda>i. failure_events path ?rq (http R (calls w + i) ?rq))
                                     [0..<nat (try_counts c)])\<rparr>)" .
  show ?thesis
    by (simp add: request_Inr [OF assms(1)] run requests_sent_def emitted_def sends_failures)
qed

theorem request_exhausts_attempts_witness:
  "fst (request rt_failing client_example GET ''/api/v1/ping'' None False world_start) = Inr None
   \<and> requests_sent world_start
         (snd (request rt_failing client_example GET ''/api/v1/ping'' None False world_start))
       = replicate 3 (http_request_of client_example GET ''https://testnet.binanceops.com/api/v1/ping'')"
proof -
  let ?rq = "http_request_of client_example GET ''https://testnet.binanceops.com/api/v1/ping''"
  have url: "request_url rt_failing client_example ''/api/v1/ping'' None False
               = Inr ''https://testnet.binanceops.com/api/v1/ping''"
    by (simp add: request_url_def client_example_def init_def)
  have fails: "\<forall>i < nat (try_counts client_example).
                 \<not> yields_200 (http rt_failing (calls world_start + i) ?rq)"
    by (simp add: rt_failing_def)
  have tries: "nat (try_counts client_example) = 3"
    by (simp add: client_example_def init_def)
  from request_exhausts_attempts [OF url fails] show ?thesis
    by (simp add: tries)
qed

text \<open>
  Claim C6, counterexample (\<^verbatim>\<open>timestamp\<close> and \<^verbatim>\<open>recvWindow\<close> in every signed request).
  The claim says that every signed request carries \<^verbatim>\<open>recvWindow\<close>, 10000 by default, and
  names query order and the listen-key operations among others. The dictionary of
  \<^verbatim>\<open>get_order\<close> has no \<^verbatim>\<open>recvWindow\<close>, and the one of \<^verbatim>\<open>get_listen_key\<close> has the
  literal 5000.
\<close>

theorem get_order_without_recv_window:
  "map rq_url (requests_sent world_start (snd (get_order rt_ok client_example
       (PStr ''BTC-200730-9000-C'') (PStr ''id1'') world_start)))
     = [''https://testnet.binanceops.com/api/v1/order?symbol=BTC-200730-9000-C&timestamp=1700000000000&origClientOrderId=id1&signature=0646'']
   \<and> map_of (get_order_params (PStr ''BTC-200730-9000-C'') 1700000000000 (PStr ''id1''))
         ''recvWindow'' = None
   \<and> map rq_url (requests_sent world_start (snd (get_listen_key rt_ok client_example world_start)))
     = [''https://testnet.binanceops.com/api/v1/userDataStream?recvWindow=5000&timestamp=1700000000000&signature=0627'']
   \<and> map_of (listen_key_params 1700000000000) ''recvWindow'' = Some (PInt 5000)"
  by code_simp

text \<open>
  Claim C6, as amended. For a client with a secret, the requests that a signed operation
  sends are exactly those of the attempt loop for one signed request: its query string is
  the encoding of the dictionary of that operation and, appended last, the signature field
  computed over exactly that encoding; at least one is sent when \<^verbatim>\<open>try_counts\<close> is
  positive. Each of these dictionaries holds \<^verbatim>\<open>timestamp\<close>, and its value is the
  millisecond clock reading of the call. \<^verbatim>\<open>recvWindow\<close> is the client's
  \<^verbatim>\<open>recv_window\<close> (10000 from the constructor) in \<^verbatim>\<open>place_order\<close>,
  \<^verbatim>\<open>cancel_open_orders\<close> and \<^verbatim>\<open>get_account_info\<close>, and it is the literal 5000 in the
  two listen-key operations. Nothing is stated here about \<^verbatim>\<open>recvWindow\<close> in
  \<^verbatim>\<open>get_order\<close>, \<^verbatim>\<open>cancel_order\<close> and \<^verbatim>\<open>get_open_orders\<close>.
\<close>

theorem signed_requests_parameters:
  assumes "api_secret c = Some secret"
  shows
  "requests_sent w (snd (get_listen_key R c w))
     = loop_sends R c (signed_request R c secret POST ''/api/v1/userDataStream''
         (listen_key_params (time_ms R (ticks w)))) w
   \<and> map_of (listen_key_params ts) ''timestamp'' = Some (PInt ts)
   \<and> map_of (listen_key_params ts) ''recvWindow'' = Some (PInt 5000)
   \<and> requests_sent w (snd (extend_listen_key R c listen_key w))
     = loop_sends R c (signed_request R c secret PUT ''/api/v1/userDataStream''
         (extend_listen_key_params (time_ms R (ticks w)) listen_key)) w
   \<and> map_of (extend_listen_key_params ts listen_key) ''timestamp'' = Some (PInt ts)
   \<and> map_of (extend_listen_key_params ts listen_key) ''recvWindow'' = Some (PInt 5000)
   \<and> requests_sent w (snd (get_order R c symbol client_order_id w))
     = loop_sends R c (signed_request R c secret GET ''/api/v1/order''
         (get_order_params symbol (time_ms R (ticks w)) client_order_id)) w
   \<and> map_of (get_order_params symbol ts client_order_id) ''timestamp'' = Some (PInt ts)
   \<and> requests_sent w (snd (cancel_order R c symbol client_order_id w))
     = loop_sends R c (signed_request R c secret DELETE ''/api/v1/order''
         (cancel_order_params symbol (time_ms R (ticks w)) client_order_id)) w
   \<and> map_of (cancel_order_params symbol ts client_order_id) ''timestamp'' = Some (PInt ts)
   \<and> requests_sent w (snd (get_open_orders R c symbol w))
     = loop_sends R c (signed_request R c secret GET ''/api/v1/openOrders''
         (get_open_orders_params (time_ms R (ticks w)) symbol)) w
   \<and> map_of (get_open_orders_params ts symbol) ''timestamp'' = Some (PInt ts)
   \<and> requests_sent w (snd (cancel_open_orders R c symbol w))
     = loop_sends R c (signed_request R c secret DELETE ''/api/v1/openOrders''
         (cancel_open_orders_params c (time_ms R (ticks w)) symbol)) w
   \<and> map_of (cancel_open_orders_params c ts symbol) ''timestamp'' = Some (PInt ts)
   \<and> map_of (cancel_open_orders_params c ts symbol) ''recvWindow'' = Some (PInt (recv_window c))
   \<and> requests_sent w (snd (get_account_info R c w))
     = loop_sends R c (signed_request R c secret GET ''/api/v1/account''
         (get_account_info_params c (time_ms R (ticks w)))) w
   \<and> map_of (get_account_info_params c ts) ''timestamp'' = Some (PInt ts)
   \<and> map_of (get_account_info_params c ts) ''recvWindow'' = Some (PInt (recv_window c))
   \<and> (place_order_params c symbol side order_type quantity price
          (order_id_used R c client_order_id w) tif stop_price
          (order_timestamp R client_order_id w) = Inr ps
        \<longrightarrow> requests_sent w (snd (snd (place_order R c symbol side order_type quantity price
                client_order_id tif stop_price w)))
            = loop_sends R c (signed_request R c secret POST ''/api/v1/order'' ps) w
          \<and> map_of ps ''timestamp'' = Some (PInt (order_timestamp R client_order_id w))
          \<and> map_of ps ''recvWindow'' = Some (PInt (recv_window c)))
   \<and> (0 < try_counts c \<longrightarrow> loop_sends R c rq w \<noteq> [])
   \<and> recv_window (init key secret0 h tmo tries) = 10000"
proof (intro conjI impI)
  show "requests_sent w (snd (get_listen_key R c w))
     = loop_sends R c (signed_request R c secret POST ''/api/v1/userDataStream''
         (listen_key_params (time_ms R (ticks w)))) w"
    by (rule sends_exactly_sent [OF get_listen_key_sends [OF assms]])
  show "requests_sent w (snd (extend_listen_key R c listen_key w))
     = loop_sends R c (signed_request R c secret PUT ''/api/v1/userDataStream''
         (extend_listen_key_params (time_ms R (ticks w)) listen_key)) w"
    by (rule sends_exactly_sent [OF extend_listen_key_sends [OF assms]])
  show "requests_sent w (snd (get_order R c symbol client_order_id w))
     = loop_sends R c (signed_request R c secret GET ''/api/v1/order''
         (get_order_params symbol (time_ms R (ticks w)) client_order_id)) w"
    by (rule sends_exactly_sent [OF get_order_sends [OF assms]])
  show "requests_sent w (snd (cancel_order R c symbol client_order_id w))
     = loop_sends R c (signed_request R c secret DELETE ''/api/v1/order''
         (cancel_order_params symbol (time_ms R (ticks w)) client_order_id)) w"
    by (rule sends_exactly_sent [OF cancel_order_sends [OF assms]])
  show "requests_sent w (snd (get_open_orders R c symbol w))
     = loop_sends R c (signed_request R c secret GET ''/api/v1/openOrders''
         (get_open_orders_params (time_ms R (ticks w)) symbol)) w"
    by (rule sends_exactly_sent [OF get_open_orders_sends [OF assms]])
  show "requests_sent w (snd (cancel_open_orders R c symbol w))
     = loop_sends R c (signed_request R c secret DELETE ''/api/v1/openOrders''
         (cancel_open_orders_params c (time_ms R (ticks w)) symbol)) w"
    by (rule sends_exactly_sent [OF cancel_open_orders_sends [OF assms]])
  show "requests_sent w (snd (get_account_info R c w))
     = loop_sends R c (signed_request R c secret GET ''/api/v1/account''
         (get_account_info_params c (time_ms R (ticks w)))) w"
    by (rule sends_exactly_sent [OF get_account_info_sends [OF assms]])
next
  assume ps: "place_order_params c symbol side order_type quantity price
      (order_id_used R c client_order_id w) tif stop_price
      (order_timestamp R client_order_id w) = Inr ps"
  show "requests_sent w (snd (snd (place_order R c symbol side order_type quantity price
          client_order_id tif stop_price w)))
      = loop_sends R c (signed_request R c secret POST ''/api/v1/order'' ps) w"
    by (rule sends_exactly_sent [OF place_order_sends_exactly [OF assms ps]])
  from place_order_params_window [OF ps]
  show "map_of ps ''timestamp'' = Some (PInt (order_timestamp R client_order_id w))"
    and "map_of ps ''recvWindow'' = Some (PInt (recv_window c))"
    by simp_all
next
  assume "0 < try_counts c"
  then show "loop_sends R c rq w \<noteq> []"
    by (rule loop_sends_nonempty)
qed (simp_all add: listen_key_params_def extend_listen_key_params_def get_order_params_def
      cancel_order_params_def get_open_orders_params_def cancel_open_orders_params_def
      get_account_info_params_def init_def Let_def)

theorem signed_requests_parameters_witness:
  "requests_sent world_start (snd (get_listen_key rt_ok client_example world_start))
     = [\<lparr> rq_method = ''POST'', rq_url = ''https://testnet.binanceops.com/api/v1/userDataStream?recvWindow=5000&timestamp=1700000000000&signature=0627'',
          rq_headers = [(''X-MBX-APIKEY'', Some ''key'')], rq_timeout = 5 \<rparr>]
   \<and> requests_sent world_start (snd (extend_listen_key rt_ok client_example (PStr ''lk'') world_start))
     = [\<lparr> rq_method = ''PUT'', rq_url = ''https://testnet.binanceops.com/api/v1/userDataStream?recvWindow=5000&timestamp=1700000000000&listenKey=lk&signature=0634'',
          rq_headers = [(''X-MBX-APIKEY'', Some ''key'')], rq_timeout = 5 \<rparr>]
   \<and> requests_sent world_start (snd (get_order rt_ok client_example (PStr ''BTC-200730-9000-C'') (PStr ''id1'') world_start))
     = [\<lparr> rq_method = ''GET'', rq_url = ''https://testnet.binanceops.com/api/v1/order?symbol=BTC-200730-9000-C&timestamp=1700000000000&origClientOrderId=id1&signature=0646'',
          rq_headers = [(''X-MBX-APIKEY'', Some ''key'')], rq_timeout = 5 \<rparr>]
   \<and> requests_sent world_start (snd (cancel_order rt_ok client_example (PStr ''BTC-200730-9000-C'') (PStr ''id1'') world_start))
     = [\<lparr> rq_method = ''DELETE'', rq_url = ''https://testnet.binanceops.com/api/v1/order?symbol=BTC-200730-9000-C&timestamp=1700000000000&origClientOrderId=id1&signature=0646'',
          rq_headers = [(''X-MBX-APIKEY'', Some ''key'')], rq_timeout = 5 \<rparr>]
   \<and> requests_sent world_start (snd (get_open_orders rt_ok client_example (PStr ''BTC-200730-9000-C'') world_start))
     = [\<lparr> rq_method = ''GET'', rq_url = ''https://testnet.binanceops.com/api/v1/openOrders?timestamp=1700000000000&symbol=BTC-200730-9000-C&signature=0630'',
          rq_headers = [(''X-MBX-APIKEY'', Some ''key'')], rq_timeout = 5 \<rparr>]
   \<and> requests_sent world_start (snd (cancel_open_orders rt_ok client_example (PStr ''BTC-200730-9000-C'') world_start))
     = [\<lparr> rq_method = ''DELETE'', rq_url = ''https://testnet.binanceops.com/api/v1/openOrders?timestamp=1700000000000&recvWindow=10000&symbol=BTC-200730-9000-C&signature=0641'',
          rq_headers = [(''X-MBX-APIKEY'', Some ''key'')], rq_timeout = 5 \<rparr>]
   \<and> requests_sent world_start (snd (get_account_info rt_ok client_example world_start))
     = [\<lparr> rq_method = ''GET'', rq_url = ''https://testnet.binanceops.com/api/v1/account?timestamp=1700000000000&recvWindow=10000&signature=0628'',
          rq_headers = [(''X-MBX-APIKEY'', Some ''key'')], rq_timeout = 5 \<rparr>]
   \<and> requests_sent world_start (snd (snd (place_order rt_ok client_example (PStr ''BTC-200730-9000-C'') BUY LIMIT (PInt 1) (PInt 9000)
        (PStr ''id1'') (PStr ''GTC'') (PInt 0) world_start)))
     = [\<lparr> rq_method = ''POST'', rq_url = ''https://testnet.binanceops.com/api/v1/order?symbol=BTC-200730-9000-C&side=BUY&type=LIMIT&quantity=1&price=9000&recvWindow=10000&timestamp=1700000000000&newClientOrderId=id1&timeInForce=GTC&signature=0690'',
          rq_headers = [(''X-MBX-APIKEY'', Some ''key'')], rq_timeout = 5 \<rparr>]
   \<and> map_of [(''symbol'', PStr ''BTC-200730-9000-C''), (''side'', PStr ''BUY''),
        (''type'', PStr ''LIMIT''), (''quantity'', PInt 1), (''price'', PInt 9000),
        (''recvWindow'', PInt 10000), (''timestamp'', PInt 1700000000000),
        (''newClientOrderId'', PStr ''id1''), (''timeInForce'', PStr ''GTC'')] ''timestamp'' = Some (PInt 1700000000000)"
proof -
  have secret: "api_secret client_example = Some ''secret''"
    by (simp add: client_example_def init_def)
  have tries: "0 < try_counts client_example"
    by (simp add: client_example_def init_def)
  have shaped: "place_order_params client_example (PStr ''BTC-200730-9000-C'') BUY LIMIT (PInt 1) (PInt 9000)
      (order_id_used rt_ok client_example (PStr ''id1'') world_start) (PStr ''GTC'') (PInt 0)
      (order_timestamp rt_ok (PStr ''id1'') world_start)
      = Inr [(''symbol'', PStr ''BTC-200730-9000-C''), (''side'', PStr ''BUY''),
        (''type'', PStr ''LIMIT''), (''quantity'', PInt 1), (''price'', PInt 9000),
        (''recvWindow'', PInt 10000), (''timestamp'', PInt 1700000000000),
        (''newClientOrderId'', PStr ''id1''), (''timeInForce'', PStr ''GTC'')]"
    by code_simp
  have stamp: "order_timestamp rt_ok (PStr ''id1'') world_start = 1700000000000"
    by code_simp
  note all = signed_requests_parameters [OF secret, where w = world_start and R = rt_ok
      and listen_key = "PStr ''lk''" and symbol = "PStr ''BTC-200730-9000-C''"
      and client_order_id = "PStr ''id1''" and side = BUY and order_type = LIMIT
      and quantity = "PInt 1" and price = "PInt 9000" and tif = "PStr ''GTC''"
      and stop_price = "PInt 0"
      and ps = "[(''symbol'', PStr ''BTC-200730-9000-C''), (''side'', PStr ''BUY''),
        (''type'', PStr ''LIMIT''), (''quantity'', PInt 1), (''price'', PInt 9000),
        (''recvWindow'', PInt 10000), (''timestamp'', PInt 1700000000000),
        (''newClientOrderId'', PStr ''id1''), (''timeInForce'', PStr ''GTC'')]"]
  have "loop_sends rt_ok client_example (signed_request rt_ok client_example ''secret'' POST ''/api/v1/userDataStream''
      (listen_key_params (time_ms rt_ok (ticks world_start)))) world_start
      = [\<lparr> rq_method = ''POST'', rq_url = ''https://testnet.binanceops.com/api/v1/userDataStream?recvWindow=5000&timestamp=1700000000000&signature=0627'',
          rq_headers = [(''X-MBX-APIKEY'', Some ''key'')], rq_timeout = 5 \<rparr>]"
    by code_simp
  with all have listen: "requests_sent world_start (snd (get_listen_key rt_ok client_example world_start))
     = [\<lparr> rq_method = ''POST'', rq_url = ''https://testnet.binanceops.com/api/v1/userDataStream?recvWindow=5000&timestamp=1700000000000&signature=0627'',
          rq_headers = [(''X-MBX-APIKEY'', Some ''key'')], rq_timeout = 5 \<rparr>]"
    by simp
  have "loop_sends rt_ok client_example (signed_request rt_ok client_example ''secret'' PUT ''/api/v1/userDataStream''
      (extend_listen_key_params (time_ms rt_ok (ticks world_start)) (PStr ''lk''))) world_start
      = [\<lparr> rq_method = ''PUT'', rq_url = ''https://testnet.binanceops.com/api/v1/userDataStream?recvWindow=5000&timestamp=1700000000000&listenKey=lk&signature=0634'',
          rq_headers = [(''X-MBX-APIKEY'', Some ''key'')], rq_timeout = 5 \<rparr>]"
    by code_simp
  with all have extend: "requests_sent world_start (snd (extend_listen_key rt_ok client_example (PStr ''lk'') world_start))
     = [\<lparr> rq_method = ''PUT'', rq_url = ''https://testnet.binanceops.com/api/v1/userDataStream?recvWindow=5000&timestamp=1700000000000&listenKey=lk&signature=0634'',
          rq_headers = [(''X-MBX-APIKEY'', Some ''key'')], rq_timeout = 5 \<rparr>]"
    by simp
  have "loop_sends rt_ok client_example (signed_request rt_ok client_example ''secret'' GET ''/api/v1/order''
      (get_order_params (PStr ''BTC-200730-9000-C'') (time_ms rt_ok (ticks world_start)) (PStr ''id1''))) world_start
      = [\<lparr> rq_method = ''GET'', rq_url = ''https://testnet.binanceops.com/api/v1/order?symbol=BTC-200730-9000-C&timestamp=1700000000000&origClientOrderId=id1&signature=0646'',
          rq_headers = [(''X-MBX-APIKEY'', Some ''key'')], rq_timeout = 5 \<rparr>]"
    by code_simp
  with all have query: "requests_sent world_start (snd (get_order rt_ok client_example (PStr ''BTC-200730-9000-C'') (PStr ''id1'') world_start))
     = [\<lparr> rq_method = ''GET'', rq_url = ''https://testnet.binanceops.com/api/v1/order?symbol=BTC-200730-9000-C&timestamp=1700000000000&origClientOrderId=id1&signature=0646'',
          rq_headers = [(''X-MBX-APIKEY'', Some ''key'')], rq_timeout = 5 \<rparr>]"
    by simp
  have "loop_sends rt_ok client_example (signed_request rt_ok client_example ''secret'' DELETE ''/api/v1/order''
      (cancel_order_params (PStr ''BTC-200730-9000-C'') (time_ms rt_ok (ticks world_start)) (PStr ''id1''))) world_start
      = [\<lparr> rq_method = ''DELETE'', rq_url = ''https://testnet.binanceops.com/api/v1/order?symbol=BTC-200730-9000-C&timestamp=1700000000000&origClientOrderId=id1&signature=0646'',
          rq_headers = [(''X-MBX-APIKEY'', Some ''key'')], rq_timeout = 5 \<rparr>]"
    by code_simp
  with all have cancel: "requests_sent world_start (snd (cancel_order rt_ok client_example (PStr ''BTC-200730-9000-C'') (PStr ''id1'') world_start))
     = [\<lparr> rq_method = ''DELETE'', rq_url = ''https://testnet.binanceops.com/api/v1/order?symbol=BTC-200730-9000-C&timestamp=1700000000000&origClientOrderId=id1&signature=0646'',
          rq_headers = [(''X-MBX-APIKEY'', Some ''key'')], rq_timeout = 5 \<rparr>]"
    by simp
  have "loop_sends rt_ok client_example (signed_request rt_ok client_example ''secret'' GET ''/api/v1/openOrders''
      (get_open_orders_params (time_ms rt_ok (ticks world_start)) (PStr ''BTC-200730-9000-C''))) world_start
      = [\<lparr> rq_method = ''GET'', rq_url = ''https://testnet.binanceops.com/api/v1/openOrders?timestamp=1700000000000&symbol=BTC-200730-9000-C&signature=0630'',
          rq_headers = [(''X-MBX-APIKEY'', Some ''key'')], rq_timeout = 5 \<rparr>]"
    by code_simp
  with all have opened: "requests_sent world_start (snd (get_open_orders rt_ok client_example (PStr ''BTC-200730-9000-C'') world_start))
     = [\<lparr> rq_method = ''GET'', rq_url = ''https://testnet.binanceops.com/api/v1/openOrders?timestamp=1700000000000&symbol=BTC-200730-9000-C&signature=0630'',
          rq_headers = [(''X-MBX-APIKEY'', Some ''key'')], rq_timeout = 5 \<rparr>]"
    by simp
  have "loop_sends rt_ok client_example (signed_request rt_ok client_example ''secret'' DELETE ''/api/v1/openOrders''
      (cancel_open_orders_params client_example (time_ms rt_ok (ticks world_start)) (PStr ''BTC-200730-9000-C''))) world_start
      = [\<lparr> rq_method = ''DELETE'', rq_url = ''https://testnet.binanceops.com/api/v1/openOrders?timestamp=1700000000000&recvWindow=10000&symbol=BTC-200730-9000-C&signature=0641'',
          rq_headers = [(''X-MBX-APIKEY'', Some ''key'')], rq_timeout = 5 \<rparr>]"
    by code_simp
  with all have cancel_all: "requests_sent world_start (snd (cancel_open_orders rt_ok client_example (PStr ''BTC-200730-9000-C'') world_start))
     = [\<lparr> rq_method = ''DELETE'', rq_url = ''https://testnet.binanceops.com/api/v1/openOrders?timestamp=1700000000000&recvWindow=10000&symbol=BTC-200730-9000-C&signature=0641'',
          rq_headers = [(''X-MBX-APIKEY'', Some ''key'')], rq_timeout = 5 \<rparr>]"
    by simp
  have "loop_sends rt_ok client_example (signed_request rt_ok client_example ''secret'' GET ''/api/v1/account''
      (get_account_info_params client_example (time_ms rt_ok (ticks world_start)))) world_start
      = [\<lparr> rq_method = ''GET'', rq_url = ''https://testnet.binanceops.com/api/v1/account?timestamp=1700000000000&recvWindow=10000&signature=0628'',
          rq_headers = [(''X-MBX-APIKEY'', Some ''key'')], rq_timeout = 5 \<rparr>]"
    by code_simp
  with all have account: "requests_sent world_start (snd (get_account_info rt_ok client_example world_start))
     = [\<lparr> rq_method = ''GET'', rq_url = ''https://testnet.binanceops.com/api/v1/account?timestamp=1700000000000&recvWindow=10000&signature=0628'',
          rq_headers = [(''X-MBX-APIKEY'', Some ''key'')], rq_timeout = 5 \<rparr>]"
    by simp
  have "loop_sends rt_ok client_example (signed_request rt_ok client_example ''secret'' POST
      ''/api/v1/order''
      [(''symbol'', PStr ''BTC-200730-9000-C''), (''side'', PStr ''BUY''),
        (''type'', PStr ''LIMIT''), (''quantity'', PInt 1), (''price'', PInt 9000),
        (''recvWindow'', PInt 10000), (''timestamp'', PInt 1700000000000),
        (''newClientOrderId'', PStr ''id1''), (''timeInForce'', PStr ''GTC'')]) world_start
      = [\<lparr> rq_method = ''POST'', rq_url = ''https://testnet.binanceops.com/api/v1/order?symbol=BTC-200730-9000-C&side=BUY&type=LIMIT&quantity=1&price=9000&recvWindow=10000&timestamp=1700000000000&newClientOrderId=id1&timeInForce=GTC&signature=0690'',
          rq_headers = [(''X-MBX-APIKEY'', Some ''key'')], rq_timeout = 5 \<rparr>]"
    by code_simp
  with all shaped have placed: "requests_sent world_start (snd (snd (place_order rt_ok client_example (PStr ''BTC-200730-9000-C'') BUY LIMIT (PInt 1) (PInt 9000)
        (PStr ''id1'') (PStr ''GTC'') (PInt 0) world_start)))
     = [\<lparr> rq_method = ''POST'', rq_url = ''https://testnet.binanceops.com/api/v1/order?symbol=BTC-200730-9000-C&side=BUY&type=LIMIT&quantity=1&price=9000&recvWindow=10000&timestamp=1700000000000&newClientOrderId=id1&timeInForce=GTC&signature=0690'',
          rq_headers = [(''X-MBX-APIKEY'', Some ''key'')], rq_timeout = 5 \<rparr>]"
    by simp
  from all shaped have "map_of [(''symbol'', PStr ''BTC-200730-9000-C''), (''side'', PStr ''BUY''),
        (''type'', PStr ''LIMIT''), (''quantity'', PInt 1), (''price'', PInt 9000),
        (''recvWindow'', PInt 10000), (''timestamp'', PInt 1700000000000),
        (''newClientOrderId'', PStr ''id1''), (''timeInForce'', PStr ''GTC'')] ''timestamp''
      = Some (PInt (order_timestamp rt_ok (PStr ''id1'') world_start))"
    by blast
  then have stamped: "map_of [(''symbol'', PStr ''BTC-200730-9000-C''), (''side'', PStr ''BUY''),
        (''type'', PStr ''LIMIT''), (''quantity'', PInt 1), (''price'', PInt 9000),
        (''recvWindow'', PInt 10000), (''timestamp'', PInt 1700000000000),
        (''newClientOrderId'', PStr ''id1''), (''timeInForce'', PStr ''GTC'')] ''timestamp'' = Some (PInt 1700000000000)"
    by (simp only: stamp)
  from listen extend query cancel opened cancel_all account placed stamped show ?thesis
    by (intro conjI)
qed

text \<open>
  Claim C7 (a MARKET order carries no price). The claim is that the outgoing request of a
  MARKET order has no \<^verbatim>\<open>price\<close> key, whatever price was supplied. The code deletes the key
  under the test \<^verbatim>\<open>if params.get('price')\<close>, which is false for the price 0 (and for
  \<^verbatim>\<open>None\<close>): a MARKET order placed with price 0 is sent with \<^verbatim>\<open>price=0\<close>. For a price
  that counts as true the key is deleted (lemma \<open>place_order_market_truthy_price\<close>).
\<close>

theorem place_order_market_price_zero:
  "place_order_params client_example (PStr ''BTC-200730-9000-C'') BUY MARKET (PInt 1) (PInt 0)
       (PStr ''id1'') (PStr ''GTC'') (PInt 0) 1700000000000
     = Inr [(''symbol'', PStr ''BTC-200730-9000-C''), (''side'', PStr ''BUY''),
            (''type'', PStr ''MARKET''), (''quantity'', PInt 1), (''price'', PInt 0),
            (''recvWindow'', PInt 10000), (''timestamp'', PInt 1700000000000),
            (''newClientOrderId'', PStr ''id1'')]
   \<and> map rq_url (requests_sent world_start (snd (snd
         (place_order rt_ok client_example (PStr ''BTC-200730-9000-C'') BUY MARKET (PInt 1) (PInt 0)
            (PStr ''id1'') (PStr ''GTC'') (PInt 0) world_start))))
     = [''https://testnet.binanceops.com/api/v1/order?symbol=BTC-200730-9000-C&side=BUY&type=MARKET&quantity=1&price=0&recvWindow=10000&timestamp=1700000000000&newClientOrderId=id1&signature=067e'']"
  by code_simp

text \<open>
  Claim C8 (stop price of a STOP order). A STOP order with a stop price \<open>\<le> 0\<close> (an integer,
  a float or a boolean for which \<^verbatim>\<open>stop_price <= 0\<close> is true) raises \<^verbatim>\<open>ValueError\<close>
  before any network activity: the call returns the error, with no event added and no call
  of \<^verbatim>\<open>requests.request\<close> made. With a stop price for which \<^verbatim>\<open>stop_price > 0\<close> is true
  no \<^verbatim>\<open>ValueError\<close> is raised and the dictionary of the order ends with \<^verbatim>\<open>stopPrice\<close>
  and that value; for a client with a secret the requests that the call sends are exactly
  those of the attempt loop for the signed request of this dictionary, so that every one of
  them carries \<^verbatim>\<open>stopPrice\<close>, and at least one is sent when \<^verbatim>\<open>try_counts\<close> is positive.
\<close>

theorem place_order_stop_price:
  "(py_le_zero stop_price = Inr True \<longrightarrow>
      fst (place_order R c symbol side STOP quantity price client_order_id tif stop_price w)
        = Inl (ValueError ''stopPrice must greater than 0'')
      \<and> log (snd (snd (place_order R c symbol side STOP quantity price client_order_id tif
                         stop_price w))) = log w
      \<and> calls (snd (snd (place_order R c symbol side STOP quantity price client_order_id tif
                         stop_price w))) = calls w)
   \<and> (py_gt_zero stop_price = Inr True \<longrightarrow>
      fst (place_order R c symbol side STOP quantity price client_order_id tif stop_price w)
        \<noteq> Inl (ValueError ''stopPrice must greater than 0'')
      \<and> place_order_params c symbol side STOP quantity price
            (order_id_used R c client_order_id w) tif stop_price
            (order_timestamp R client_order_id w)
          = Inr [(''symbol'', symbol), (''side'', PStr (OrderSide_value side)),
             (''type'', PStr ''STOP''), (''quantity'', quantity), (''price'', price),
             (''recvWindow'', PInt (recv_window c)),
             (''timestamp'', PInt (order_timestamp R client_order_id w)),
             (''newClientOrderId'', order_id_used R c client_order_id w),
             (''stopPrice'', stop_price)]
      \<and> (api_secret c = Some secret \<longrightarrow>
            requests_sent w (snd (snd (place_order R c symbol side STOP quantity price
                client_order_id tif stop_price w)))
              = loop_sends R c (signed_request R c secret POST ''/api/v1/order''
                  [(''symbol'', symbol), (''side'', PStr (OrderSide_value side)),
             (''type'', PStr ''STOP''), (''quantity'', quantity), (''price'', price),
             (''recvWindow'', PInt (recv_window c)),
             (''timestamp'', PInt (order_timestamp R client_order_id w)),
             (''newClientOrderId'', order_id_used R c client_order_id w),
             (''stopPrice'', stop_price)]) w)
      \<and> (api_secret c = Some secret \<and> 0 < try_counts c \<longrightarrow>
            requests_sent w (snd (snd (place_order R c symbol side STOP quantity price
                client_order_id tif stop_price w))) \<noteq> []))"
proof (intro conjI impI)
  assume "py_le_zero stop_price = Inr True"
  then have "py_gt_zero stop_price = Inr False"
    by (rule py_le_zero_not_gt)
  then have "\<And>c' coid ts. place_order_params c' symbol side STOP quantity price coid tif
      stop_price ts = Inl (ValueError ''stopPrice must greater than 0'')"
    by (rule place_order_params_stop_rejected)
  note rejected = place_order_rejected [OF this, of R c client_order_id w]
  from rejected show "fst (place_order R c symbol side STOP quantity price client_order_id tif
      stop_price w) = Inl (ValueError ''stopPrice must greater than 0'')"
    by (rule conjunct1)
  from rejected show "log (snd (snd (place_order R c symbol side STOP quantity price
      client_order_id tif stop_price w))) = log w"
    by (rule conjunct2 [THEN conjunct1])
  from rejected show "calls (snd (snd (place_order R c symbol side STOP quantity price
      client_order_id tif stop_price w))) = calls w"
    by (rule conjunct2 [THEN conjunct2])
next
  assume pos: "py_gt_zero stop_price = Inr True"
  then have "\<And>c' coid ts. \<exists>ps. place_order_params c' symbol side STOP quantity price coid tif
      stop_price ts = Inr ps"
    by (simp add: place_order_params_stop)
  then show "fst (place_order R c symbol side STOP quantity price client_order_id tif
      stop_price w) \<noteq> Inl (ValueError ''stopPrice must greater than 0'')"
    by (rule place_order_accepted)
next
  assume pos: "py_gt_zero stop_price = Inr True"
  then show "place_order_params c symbol side STOP quantity price
      (order_id_used R c client_order_id w) tif stop_price
      (order_timestamp R client_order_id w)
    = Inr [(''symbol'', symbol), (''side'', PStr (OrderSide_value side)),
             (''type'', PStr ''STOP''), (''quantity'', quantity), (''price'', price),
             (''recvWindow'', PInt (recv_window c)),
             (''timestamp'', PInt (order_timestamp R client_order_id w)),
             (''newClientOrderId'', order_id_used R c client_order_id w),
             (''stopPrice'', stop_price)]"
    by (rule place_order_params_stop)
next
  assume pos: "py_gt_zero stop_price = Inr True" and secret: "api_secret c = Some secret"
  from pos have "place_order_params c symbol side STOP quantity price
      (order_id_used R c client_order_id w) tif stop_price
      (order_timestamp R client_order_id w)
    = Inr [(''symbol'', symbol), (''side'', PStr (OrderSide_value side)),
             (''type'', PStr ''STOP''), (''quantity'', quantity), (''price'', price),
             (''recvWindow'', PInt (recv_window c)),
             (''timestamp'', PInt (order_timestamp R client_order_id w)),
             (''newClientOrderId'', order_id_used R c client_order_id w),
             (''stopPrice'', stop_price)]"
    by (rule place_order_params_stop)
  from sends_exactly_sent [OF place_order_sends_exactly [OF secret this]]
  show "requests_sent w (snd (snd (place_order R c symbol side STOP quantity price
      client_order_id tif stop_price w)))
    = loop_sends R c (signed_request R c secret POST ''/api/v1/order''
        [(''symbol'', symbol), (''side'', PStr (OrderSide_value side)),
             (''type'', PStr ''STOP''), (''quantity'', quantity), (''price'', price),
             (''recvWindow'', PInt (recv_window c)),
             (''timestamp'', PInt (order_timestamp R client_order_id w)),
             (''newClientOrderId'', order_id_used R c client_order_id w),
             (''stopPrice'', stop_price)]) w" .
next
  assume pos: "py_gt_zero stop_price = Inr True"
    and both: "api_secret c = Some secret \<and> 0 < try_counts c"
  from pos have "place_order_params c symbol side STOP quantity price
      (order_id_used R c client_order_id w) tif stop_price
      (order_timestamp R client_order_id w)
    = Inr [(''symbol'', symbol), (''side'', PStr (OrderSide_value side)),
             (''type'', PStr ''STOP''), (''quantity'', quantity), (''price'', price),
             (''recvWindow'', PInt (recv_window c)),
             (''timestamp'', PInt (order_timestamp R client_order_id w)),
             (''newClientOrderId'', order_id_used R c client_order_id w),
             (''stopPrice'', stop_price)]"
    by (rule place_order_params_stop)
  from sends_exactly_sent [OF place_order_sends_exactly [OF conjunct1 [OF both] this]]
    loop_sends_nonempty [OF conjunct2 [OF both]]
  show "requests_sent w (snd (snd (place_order R c symbol side STOP quantity price
      client_order_id tif stop_price w))) \<noteq> []"
    by simp
qed

theorem place_order_stop_price_witness:
  "fst (place_order rt_ok client_example (PStr ''BTC-200730-9000-C'') SELL STOP (PInt 1) (PInt 9000)
          PNone (PStr ''GTC'') (PInt 0) world_start)
     = Inl (ValueError ''stopPrice must greater than 0'')
   \<and> log (snd (snd (place_order rt_ok client_example (PStr ''BTC-200730-9000-C'') SELL STOP (PInt 1)
          (PInt 9000) PNone (PStr ''GTC'') (PInt 0) world_start))) = []
   \<and> fst (place_order rt_ok client_example (PStr ''BTC-200730-9000-C'') SELL STOP (PInt 1) (PInt 9000)
          PNone (PStr ''GTC'') (PFloat (Finite (- 1 / 2))) world_start)
     = Inl (ValueError ''stopPrice must greater than 0'')
   \<and> requests_sent world_start (snd (snd (place_order rt_ok client_example (PStr ''BTC-200730-9000-C'') SELL STOP (PInt 1) (PInt 9000)
          (PStr ''id1'') (PStr ''GTC'') (PInt 8500) world_start)))
     = [\<lparr> rq_method = ''POST'', rq_url = ''https://testnet.binanceops.com/api/v1/order?symbol=BTC-200730-9000-C&side=SELL&type=STOP&quantity=1&price=9000&recvWindow=10000&timestamp=1700000000000&newClientOrderId=id1&stopPrice=8500&signature=068f'',
          rq_headers = [(''X-MBX-APIKEY'', Some ''key'')], rq_timeout = 5 \<rparr>]
   \<and> requests_sent world_start (snd (snd (place_order rt_ok client_example (PStr ''BTC-200730-9000-C'') SELL STOP (PInt 1) (PInt 9000)
          PNone (PStr ''GTC'') (PInt 8500) world_start)))
     = [\<lparr> rq_method = ''POST'', rq_url = ''https://testnet.binanceops.com/api/v1/order?symbol=BTC-200730-9000-C&side=SELL&type=STOP&quantity=1&price=9000&recvWindow=10000&timestamp=1700000000001&newClientOrderId=x-A6SIDXVS17000000000001000001&stopPrice=8500&signature=06aa'',
          rq_headers = [(''X-MBX-APIKEY'', Some ''key'')], rq_timeout = 5 \<rparr>]"
proof -
  have secret: "api_secret client_example = Some ''secret''"
    by (simp add: client_example_def init_def)
  have start: "log world_start = []"
    by (simp add: world_start_def)
  have zero: "py_le_zero (PInt 0) = Inr True"
    by simp
  have negative: "py_le_zero (PFloat (Finite (- 1 / 2))) = Inr True"
    by simp
  have positive: "py_gt_zero (PInt 8500) = Inr True"
    by simp
  note rejected = place_order_stop_price [where stop_price = "PInt 0" and R = rt_ok
      and c = client_example and symbol = "PStr ''BTC-200730-9000-C''" and side = SELL
      and quantity = "PInt 1" and price = "PInt 9000" and client_order_id = PNone
      and tif = "PStr ''GTC''" and w = world_start]
  note rejected_float = place_order_stop_price [where stop_price = "PFloat (Finite (- 1 / 2))"
      and R = rt_ok and c = client_example and symbol = "PStr ''BTC-200730-9000-C''"
      and side = SELL and quantity = "PInt 1" and price = "PInt 9000"
      and client_order_id = PNone and tif = "PStr ''GTC''" and w = world_start]
  note accepted = place_order_stop_price [where stop_price = "PInt 8500" and R = rt_ok
      and c = client_example and symbol = "PStr ''BTC-200730-9000-C''" and side = SELL
      and quantity = "PInt 1" and price = "PInt 9000" and client_order_id = "PStr ''id1''"
      and tif = "PStr ''GTC''" and w = world_start and secret = "''secret''"]
  note generated = place_order_stop_price [where stop_price = "PInt 8500" and R = rt_ok
      and c = client_example and symbol = "PStr ''BTC-200730-9000-C''" and side = SELL
      and quantity = "PInt 1" and price = "PInt 9000" and client_order_id = PNone
      and tif = "PStr ''GTC''" and w = world_start and secret = "''secret''"]
  from rejected zero have a: "fst (place_order rt_ok client_example (PStr ''BTC-200730-9000-C'')
      SELL STOP (PInt 1) (PInt 9000) PNone (PStr ''GTC'') (PInt 0) world_start)
     = Inl (ValueError ''stopPrice must greater than 0'')"
    by blast
  from rejected zero have "log (snd (snd (place_order rt_ok client_example
      (PStr ''BTC-200730-9000-C'') SELL STOP (PInt 1) (PInt 9000) PNone (PStr ''GTC'') (PInt 0)
      world_start))) = log world_start"
    by blast
  then have b: "log (snd (snd (place_order rt_ok client_example
      (PStr ''BTC-200730-9000-C'') SELL STOP (PInt 1) (PInt 9000) PNone (PStr ''GTC'') (PInt 0)
      world_start))) = []"
    by (simp add: start)
  from rejected_float negative have c: "fst (place_order rt_ok client_example
      (PStr ''BTC-200730-9000-C'') SELL STOP (PInt 1) (PInt 9000) PNone (PStr ''GTC'')
      (PFloat (Finite (- 1 / 2))) world_start)
     = Inl (ValueError ''stopPrice must greater than 0'')"
    by blast
  have run1: "loop_sends rt_ok client_example (signed_request rt_ok client_example ''secret'' POST
      ''/api/v1/order''
      [(''symbol'', PStr ''BTC-200730-9000-C''), (''side'', PStr (OrderSide_value SELL)),
             (''type'', PStr ''STOP''), (''quantity'', PInt 1), (''price'', PInt 9000),
             (''recvWindow'', PInt (recv_window client_example)),
             (''timestamp'', PInt (order_timestamp rt_ok (PStr ''id1'') world_start)),
             (''newClientOrderId'', order_id_used rt_ok client_example (PStr ''id1'') world_start),
             (''stopPrice'', PInt 8500)]) world_start
     = [\<lparr> rq_method = ''POST'', rq_url = ''https://testnet.binanceops.com/api/v1/order?symbol=BTC-200730-9000-C&side=SELL&type=STOP&quantity=1&price=9000&recvWindow=10000&timestamp=1700000000000&newClientOrderId=id1&stopPrice=8500&signature=068f'',
          rq_headers = [(''X-MBX-APIKEY'', Some ''key'')], rq_timeout = 5 \<rparr>]"
    by code_simp
  from accepted positive secret have "requests_sent world_start (snd (snd (place_order rt_ok client_example (PStr ''BTC-200730-9000-C'') SELL STOP (PInt 1) (PInt 9000)
          (PStr ''id1'') (PStr ''GTC'') (PInt 8500) world_start)))
     = loop_sends rt_ok client_example (signed_request rt_ok client_example ''secret'' POST
      ''/api/v1/order''
      [(''symbol'', PStr ''BTC-200730-9000-C''), (''side'', PStr (OrderSide_value SELL)),
             (''type'', PStr ''STOP''), (''quantity'', PInt 1), (''price'', PInt 9000),
             (''recvWindow'', PInt (recv_window client_example)),
             (''timestamp'', PInt (order_timestamp rt_ok (PStr ''id1'') world_start)),
             (''newClientOrderId'', order_id_used rt_ok client_example (PStr ''id1'') world_start),
             (''stopPrice'', PInt 8500)]) world_start"
    by blast
  then have d: "requests_sent world_start (snd (snd (place_order rt_ok client_example (PStr ''BTC-200730-9000-C'') SELL STOP (PInt 1) (PInt 9000)
          (PStr ''id1'') (PStr ''GTC'') (PInt 8500) world_start)))
     = [\<lparr> rq_method = ''POST'', rq_url = ''https://testnet.binanceops.com/api/v1/order?symbol=BTC-200730-9000-C&side=SELL&type=STOP&quantity=1&price=9000&recvWindow=10000&timestamp=1700000000000&newClientOrderId=id1&stopPrice=8500&signature=068f'',
          rq_headers = [(''X-MBX-APIKEY'', Some ''key'')], rq_timeout = 5 \<rparr>]"
    by (simp only: run1)
  have run2: "loop_sends rt_ok client_example (signed_request rt_ok client_example ''secret'' POST
      ''/api/v1/order''
      [(''symbol'', PStr ''BTC-200730-9000-C''), (''side'', PStr (OrderSide_value SELL)),
             (''type'', PStr ''STOP''), (''quantity'', PInt 1), (''price'', PInt 9000),
             (''recvWindow'', PInt (recv_window client_example)),
             (''timestamp'', PInt (order_timestamp rt_ok (PNone) world_start)),
             (''newClientOrderId'', order_id_used rt_ok client_example (PNone) world_start),
             (''stopPrice'', PInt 8500)]) world_start
     = [\<lparr> rq_method = ''POST'', rq_url = ''https://testnet.binanceops.com/api/v1/order?symbol=BTC-200730-9000-C&side=SELL&type=STOP&quantity=1&price=9000&recvWindow=10000&timestamp=1700000000001&newClientOrderId=x-A6SIDXVS17000000000001000001&stopPrice=8500&signature=06aa'',
          rq_headers = [(''X-MBX-APIKEY'', Some ''key'')], rq_timeout = 5 \<rparr>]"
    by code_simp
  from generated positive secret have "requests_sent world_start (snd (snd (place_order rt_ok client_example (PStr ''BTC-200730-9000-C'') SELL STOP (PInt 1) (PInt 9000)
          PNone (PStr ''GTC'') (PInt 8500) world_start)))
     = loop_sends rt_ok client_example (signed_request rt_ok client_example ''secret'' POST
      ''/api/v1/order''
      [(''symbol'', PStr ''BTC-200730-9000-C''), (''side'', PStr (OrderSide_value SELL)),
             (''type'', PStr ''STOP''), (''quantity'', PInt 1), (''price'', PInt 9000),
             (''recvWindow'', PInt (recv_window client_example)),
             (''timestamp'', PInt (order_timestamp rt_ok (PNone) world_start)),
             (''newClientOrderId'', order_id_used rt_ok client_example (PNone) world_start),
             (''stopPrice'', PInt 8500)]) world_start"
    by blast
  then have e: "requests_sent world_start (snd (snd (place_order rt_ok client_example (PStr ''BTC-200730-9000-C'') SELL STOP (PInt 1) (PInt 9000)
          PNone (PStr ''GTC'') (PInt 8500) world_start)))
     = [\<lparr> rq_method = ''POST'', rq_url = ''https://testnet.binanceops.com/api/v1/order?symbol=BTC-200730-9000-C&side=SELL&type=STOP&quantity=1&price=9000&recvWindow=10000&timestamp=1700000000001&newClientOrderId=x-A6SIDXVS17000000000001000001&stopPrice=8500&signature=06aa'',
          rq_headers = [(''X-MBX-APIKEY'', Some ''key'')], rq_timeout = 5 \<rparr>]"
    by (simp only: run2)
  from a b c d e show ?thesis
    by (intro conjI)
qed

text \<open>
  Claim C9, counterexample (signing with an absent or empty secret). The claim says that
  signing with an empty secret fails fast. The code has no check of the secret: with the
  empty string as secret \<^verbatim>\<open>_sign\<close> returns a signature keyed by the empty key, and
  \<^verbatim>\<open>get_account_info\<close> sends the request.
\<close>

theorem sign_accepts_empty_secret:
  "sign rt_ok (client_example\<lparr>api_secret := Some []\<rparr>) (Some [(''timestamp'', PInt 1700000000000)])
     = Inr ''timestamp=1700000000000&signature=0017''
   \<and> get_account_info rt_ok (client_example\<lparr>api_secret := Some []\<rparr>) world_start
     = (Inr (Some (JStr ''ok'')),
        \<lparr> ticks = 1, calls = 1,
          log = [Send \<lparr> rq_method = ''GET'',
                        rq_url = ''https://testnet.binanceops.com/api/v1/account?timestamp=1700000000000&recvWindow=10000&signature=0028'',
                        rq_headers = [(''X-MBX-APIKEY'', Some ''key'')],
                        rq_timeout = 5 \<rparr>] \<rparr>)"
  by code_simp

text \<open>
  Claim C9, as amended. With an absent secret (\<^verbatim>\<open>None\<close>) signing raises, an
  \<^verbatim>\<open>AttributeError\<close> of \<^verbatim>\<open>None.encode\<close> and not a dedicated configuration error, and
  \<^verbatim>\<open>request\<close> lets it through before the loop, so that nothing is sent and the world is
  as before. With an empty secret signing does not fail: \<^verbatim>\<open>_sign\<close> returns the parameter
  string with a signature keyed by the empty byte string, and \<^verbatim>\<open>request\<close> goes on to
  the attempt loop with that URL.
\<close>

theorem sign_absent_or_empty_secret:
  "(api_secret c = None \<longrightarrow>
      sign R c (Some params) = Inl (AttributeError ''encode'')
      \<and> request R c req_method path (Some params) True w = (Inl (AttributeError ''encode''), w))
   \<and> (api_secret c = Some [] \<longrightarrow>
      sign R c (Some params) =
        Inr (build_parameters R params @ ''&signature=''
             @ hexdigest (hmac_sha256 R [] (encode_utf8 (build_parameters R params))))
      \<and> request R c req_method path (Some params) True w =
          (let url = host c @ path @ ''?'' @ build_parameters R params @ ''&signature=''
                 @ hexdigest (hmac_sha256 R [] (encode_utf8 (build_parameters R params)));
               run = attempts R (nat (try_counts c)) path (http_request_of c req_method url) w
           in (Inr (fst run), snd run)))"
  by (simp add: sign_def request_def request_url_def http_request_of_def encode_utf8_def Let_def
      case_prod_beta)

theorem sign_absent_or_empty_secret_witness:
  "request rt_ok (client_example\<lparr>api_secret := None\<rparr>) GET ''/api/v1/account''
      (Some [(''timestamp'', PInt 1700000000000)]) True world_start
     = (Inl (AttributeError ''encode''), world_start)
   \<and> sign rt_ok (client_example\<lparr>api_secret := Some []\<rparr>) (Some [(''timestamp'', PInt 1700000000000)])
     = Inr ''timestamp=1700000000000&signature=0017''"
proof -
  have none: "api_secret (client_example\<lparr>api_secret := None\<rparr>) = None"
    by simp
  have empty: "api_secret (client_example\<lparr>api_secret := Some []\<rparr>) = Some []"
    by simp
  have query: "build_parameters rt_ok [(''timestamp'', PInt 1700000000000)] = ''timestamp=1700000000000''"
    by code_simp
  have digest: "hexdigest (hmac_sha256 rt_ok [] (encode_utf8 ''timestamp=1700000000000'')) = ''0017''"
    by code_simp
  from sign_absent_or_empty_secret [of "client_example\<lparr>api_secret := None\<rparr>" rt_ok
      "[(''timestamp'', PInt 1700000000000)]" GET "''/api/v1/account''" world_start] none
  have first: "request rt_ok (client_example\<lparr>api_secret := None\<rparr>) GET ''/api/v1/account''
      (Some [(''timestamp'', PInt 1700000000000)]) True world_start
     = (Inl (AttributeError ''encode''), world_start)"
    by blast
  from sign_absent_or_empty_secret [of "client_example\<lparr>api_secret := Some []\<rparr>" rt_ok
      "[(''timestamp'', PInt 1700000000000)]" GET "''/api/v1/account''" world_start] empty
  have "sign rt_ok (client_example\<lparr>api_secret := Some []\<rparr>)
          (Some [(''timestamp'', PInt 1700000000000)])
     = Inr (build_parameters rt_ok [(''timestamp'', PInt 1700000000000)] @ ''&signature=''
             @ hexdigest (hmac_sha256 rt_ok []
                 (encode_utf8 (build_parameters rt_ok [(''timestamp'', PInt 1700000000000)]))))"
    by blast
  then have second: "sign rt_ok (client_example\<lparr>api_secret := Some []\<rparr>)
      (Some [(''timestamp'', PInt 1700000000000)]) = Inr ''timestamp=1700000000000&signature=0017''"
    unfolding query digest by simp
  from first second show ?thesis by (rule conjI)
qed

text \<open>
  Claim C10, counterexample (API key header). The claim says that every request carries the
  configured API key in the header \<^verbatim>\<open>X-MBX-APIKEY\<close>. A client built without a key (the
  default \<^verbatim>\<open>api_key=None\<close>) hands \<^verbatim>\<open>requests.request\<close> the header with the value
  \<^verbatim>\<open>None\<close>: the request of \<^verbatim>\<open>get_ping\<close> carries no key.
\<close>

theorem request_without_api_key:
  "api_key client_without_key = None
   \<and> requests_sent world_start (snd (get_ping rt_ok client_without_key world_start))
     = [\<lparr> rq_method = ''GET'', rq_url = ''https://testnet.binanceops.com/api/v1/ping'',
          rq_headers = [(''X-MBX-APIKEY'', None)], rq_timeout = 5 \<rparr>]"
  by code_simp

text \<open>
  Claim C10, as amended. The requests that \<^verbatim>\<open>request\<close> sends are exactly those of the
  attempt loop for one request, whose headers are \<^verbatim>\<open>X-MBX-APIKEY\<close> with the client's
  \<^verbatim>\<open>api_key\<close>, for a signed call and for an unsigned one alike, and none when signing
  raised; at least one is sent when \<^verbatim>\<open>try_counts\<close> is positive. The same holds of the
  public operations ping, server time, order book (depth) and klines, with their URLs. When
  a key is configured every request sent carries it; with no key the value handed over is
  \<^verbatim>\<open>None\<close>. Every other operation goes through \<^verbatim>\<open>request\<close> as well (lemma
  \<open>every_operation_carries_api_key\<close>).
\<close>

theorem requests_carry_api_key:
  "requests_sent w (snd (request R c req_method path params verify w))
     = (case request_url R c path params verify of
          Inl e \<Rightarrow> []
        | Inr url \<Rightarrow>
            loop_sends R c
              \<lparr> rq_method = RequestMethod_value req_method, rq_url = url,
                rq_headers = [(''X-MBX-APIKEY'', api_key c)], rq_timeout = timeout c \<rparr> w)
   \<and> requests_sent w (snd (get_ping R c w))
     = loop_sends R c
         \<lparr> rq_method = ''GET'', rq_url = host c @ ''/api/v1/ping'',
           rq_headers = [(''X-MBX-APIKEY'', api_key c)], rq_timeout = timeout c \<rparr> w
   \<and> requests_sent w (snd (get_server_time R c w))
     = loop_sends R c
         \<lparr> rq_method = ''GET'', rq_url = host c @ ''/api/v1/time'',
           rq_headers = [(''X-MBX-APIKEY'', api_key c)], rq_timeout = timeout c \<rparr> w
   \<and> requests_sent w (snd (get_order_book R c symbol limit w))
     = loop_sends R c
         \<lparr> rq_method = ''GET'', rq_url = host c @ ''/api/v1/depth'' @ ''?''
                      @ build_parameters R (get_order_book_params symbol limit),
           rq_headers = [(''X-MBX-APIKEY'', api_key c)], rq_timeout = timeout c \<rparr> w
   \<and> requests_sent w (snd (get_kline R c symbol interval start_time end_time limit w))
     = loop_sends R c
         \<lparr> rq_method = ''GET'', rq_url = host c @ ''/api/v1/klines'' @ ''?''
                      @ build_parameters R
                          (get_kline_params symbol interval start_time end_time limit),
           rq_headers = [(''X-MBX-APIKEY'', api_key c)], rq_timeout = timeout c \<rparr> w
   \<and> (0 < try_counts c \<longrightarrow> loop_sends R c rq w \<noteq> [])
   \<and> (api_key c = Some key \<longrightarrow>
        map rq_headers (requests_sent w (snd (request R c req_method path params verify w)))
          = replicate (length (requests_sent w
                (snd (request R c req_method path params verify w))))
              [(''X-MBX-APIKEY'', Some key)])"
proof (intro conjI impI)
  show "requests_sent w (snd (request R c req_method path params verify w))
     = (case request_url R c path params verify of
          Inl e \<Rightarrow> []
        | Inr url \<Rightarrow>
            loop_sends R c
              \<lparr> rq_method = RequestMethod_value req_method, rq_url = url,
                rq_headers = [(''X-MBX-APIKEY'', api_key c)], rq_timeout = timeout c \<rparr> w)"
  proof (cases "request_url R c path params verify")
    case (Inl e)
    from sends_exactly_sent [OF request_sends_nothing [OF Inl]] Inl show ?thesis
      by simp
  next
    case (Inr url)
    from sends_exactly_sent [OF request_sends_exactly [OF Inr]] Inr show ?thesis
      by (simp add: plain_request_def)
  qed
  show "requests_sent w (snd (get_ping R c w))
     = loop_sends R c
         \<lparr> rq_method = ''GET'', rq_url = host c @ ''/api/v1/ping'',
           rq_headers = [(''X-MBX-APIKEY'', api_key c)], rq_timeout = timeout c \<rparr> w"
    using sends_exactly_sent [OF get_ping_sends] by (simp add: plain_request_def)
  show "requests_sent w (snd (get_server_time R c w))
     = loop_sends R c
         \<lparr> rq_method = ''GET'', rq_url = host c @ ''/api/v1/time'',
           rq_headers = [(''X-MBX-APIKEY'', api_key c)], rq_timeout = timeout c \<rparr> w"
    using sends_exactly_sent [OF get_server_time_sends] by (simp add: plain_request_def)
  show "requests_sent w (snd (get_order_book R c symbol limit w))
     = loop_sends R c
         \<lparr> rq_method = ''GET'', rq_url = host c @ ''/api/v1/depth'' @ ''?''
                      @ build_parameters R (get_order_book_params symbol limit),
           rq_headers = [(''X-MBX-APIKEY'', api_key c)], rq_timeout = timeout c \<rparr> w"
    using sends_exactly_sent [OF get_order_book_sends] by (simp add: plain_request_def)
  show "requests_sent w (snd (get_kline R c symbol interval start_time end_time limit w))
     = loop_sends R c
         \<lparr> rq_method = ''GET'', rq_url = host c @ ''/api/v1/klines'' @ ''?''
                      @ build_parameters R
                          (get_kline_params symbol interval start_time end_time limit),
           rq_headers = [(''X-MBX-APIKEY'', api_key c)], rq_timeout = timeout c \<rparr> w"
    using sends_exactly_sent [OF get_kline_sends] by (simp add: plain_request_def)
next
  assume "0 < try_counts c"
  then show "loop_sends R c rq w \<noteq> []"
    by (rule loop_sends_nonempty)
next
  assume key: "api_key c = Some key"
  show "map rq_headers (requests_sent w (snd (request R c req_method path params verify w)))
          = replicate (length (requests_sent w
                (snd (request R c req_method path params verify w))))
              [(''X-MBX-APIKEY'', Some key)]"
  proof (cases "request_url R c path params verify")
    case (Inl e)
    from sends_exactly_sent [OF request_sends_nothing [OF Inl]] show ?thesis
      by simp
  next
    case (Inr url)
    from sends_exactly_sent [OF request_sends_exactly [OF Inr]] key show ?thesis
      by (simp add: plain_request_def loop_sends_def)
  qed
qed

theorem requests_carry_api_key_witness:
  "requests_sent world_start (snd (request rt_ok client_example GET ''/api/v1/ping'' None False world_start))
     = [\<lparr> rq_method = ''GET'', rq_url = ''https://testnet.binanceops.com/api/v1/ping'',
          rq_headers = [(''X-MBX-APIKEY'', Some ''key'')], rq_timeout = 5 \<rparr>]
   \<and> requests_sent world_start (snd (get_ping rt_ok client_example world_start))
     = [\<lparr> rq_method = ''GET'', rq_url = ''https://testnet.binanceops.com/api/v1/ping'',
          rq_headers = [(''X-MBX-APIKEY'', Some ''key'')], rq_timeout = 5 \<rparr>]
   \<and> requests_sent world_start (snd (get_server_time rt_ok client_example world_start))
     = [\<lparr> rq_method = ''GET'', rq_url = ''https://testnet.binanceops.com/api/v1/time'',
          rq_headers = [(''X-MBX-APIKEY'', Some ''key'')], rq_timeout = 5 \<rparr>]
   \<and> requests_sent world_start (snd (get_order_book rt_ok client_example (PStr ''BTC-200730-9000-C'') (PInt 7) world_start))
     = [\<lparr> rq_method = ''GET'', rq_url = ''https://testnet.binanceops.com/api/v1/depth?symbol=BTC-200730-9000-C&limit=10'',
          rq_headers = [(''X-MBX-APIKEY'', Some ''key'')], rq_timeout = 5 \<rparr>]
   \<and> requests_sent world_start (snd (get_kline rt_ok client_example (PStr ''BTC-200730-9000-C'') (Interval ''1m'') PNone PNone (PInt 7)
        world_start))
     = [\<lparr> rq_method = ''GET'', rq_url = ''https://testnet.binanceops.com/api/v1/klines?symbol=BTC-200730-9000-C&interval=1m&limit=500'',
          rq_headers = [(''X-MBX-APIKEY'', Some ''key'')], rq_timeout = 5 \<rparr>]
   \<and> map rq_headers (requests_sent world_start (snd (request rt_ok client_example GET ''/api/v1/ping'' None False world_start)))
     = [[(''X-MBX-APIKEY'', Some ''key'')]]"
proof -
  note all = requests_carry_api_key [where w = world_start and R = rt_ok and c = client_example
      and req_method = GET and path = "''/api/v1/ping''" and params = None and verify = False
      and symbol = "PStr ''BTC-200730-9000-C''" and limit = "PInt 7" and interval = "Interval ''1m''"
      and start_time = PNone and end_time = PNone and key = "''key''"]
  have key: "api_key client_example = Some ''key''"
    by (simp add: client_example_def init_def)
  have url: "request_url rt_ok client_example ''/api/v1/ping'' None False
      = Inr (host client_example @ ''/api/v1/ping'')"
    by (simp add: request_url_def)
  have "loop_sends rt_ok client_example
         \<lparr> rq_method = ''GET'', rq_url = host client_example @ ''/api/v1/ping'',
           rq_headers = [(''X-MBX-APIKEY'', api_key client_example)],
           rq_timeout = timeout client_example \<rparr> world_start
     = [\<lparr> rq_method = ''GET'', rq_url = ''https://testnet.binanceops.com/api/v1/ping'',
          rq_headers = [(''X-MBX-APIKEY'', Some ''key'')], rq_timeout = 5 \<rparr>]"
    by code_simp
  with all have ping: "requests_sent world_start (snd (get_ping rt_ok client_example world_start))
     = [\<lparr> rq_method = ''GET'', rq_url = ''https://testnet.binanceops.com/api/v1/ping'',
          rq_headers = [(''X-MBX-APIKEY'', Some ''key'')], rq_timeout = 5 \<rparr>]"
    by simp
  have "loop_sends rt_ok client_example
         \<lparr> rq_method = ''GET'', rq_url = host client_example @ ''/api/v1/time'',
           rq_headers = [(''X-MBX-APIKEY'', api_key client_example)],
           rq_timeout = timeout client_example \<rparr> world_start
     = [\<lparr> rq_method = ''GET'', rq_url = ''https://testnet.binanceops.com/api/v1/time'',
          rq_headers = [(''X-MBX-APIKEY'', Some ''key'')], rq_timeout = 5 \<rparr>]"
    by code_simp
  with all have time: "requests_sent world_start (snd (get_server_time rt_ok client_example world_start))
     = [\<lparr> rq_method = ''GET'', rq_url = ''https://testnet.binanceops.com/api/v1/time'',
          rq_headers = [(''X-MBX-APIKEY'', Some ''key'')], rq_timeout = 5 \<rparr>]"
    by simp
  have "loop_sends rt_ok client_example
         \<lparr> rq_method = ''GET'', rq_url = host client_example @ ''/api/v1/depth'' @ ''?''
                      @ build_parameters rt_ok (get_order_book_params (PStr ''BTC-200730-9000-C'') (PInt 7)),
           rq_headers = [(''X-MBX-APIKEY'', api_key client_example)],
           rq_timeout = timeout client_example \<rparr> world_start
     = [\<lparr> rq_method = ''GET'', rq_url = ''https://testnet.binanceops.com/api/v1/depth?symbol=BTC-200730-9000-C&limit=10'',
          rq_headers = [(''X-MBX-APIKEY'', Some ''key'')], rq_timeout = 5 \<rparr>]"
    by code_simp
  with all have depth: "requests_sent world_start (snd (get_order_book rt_ok client_example (PStr ''BTC-200730-9000-C'') (PInt 7) world_start))
     = [\<lparr> rq_method = ''GET'', rq_url = ''https://testnet.binanceops.com/api/v1/depth?symbol=BTC-200730-9000-C&limit=10'',
          rq_headers = [(''X-MBX-APIKEY'', Some ''key'')], rq_timeout = 5 \<rparr>]"
    by simp
  have "loop_sends rt_ok client_example
         \<lparr> rq_method = ''GET'', rq_url = host client_example @ ''/api/v1/klines'' @ ''?''
                      @ build_parameters rt_ok
                          (get_kline_params (PStr ''BTC-200730-9000-C'') (Interval ''1m'') PNone PNone (PInt 7)),
           rq_headers = [(''X-MBX-APIKEY'', api_key client_example)],
           rq_timeout = timeout client_example \<rparr> world_start
     = [\<lparr> rq_method = ''GET'', rq_url = ''https://testnet.binanceops.com/api/v1/klines?symbol=BTC-200730-9000-C&interval=1m&limit=500'',
          rq_headers = [(''X-MBX-APIKEY'', Some ''key'')], rq_timeout = 5 \<rparr>]"
    by code_simp
  with all have klines: "requests_sent world_start (snd (get_kline rt_ok client_example (PStr ''BTC-200730-9000-C'') (Interval ''1m'') PNone PNone (PInt 7)
        world_start))
     = [\<lparr> rq_method = ''GET'', rq_url = ''https://testnet.binanceops.com/api/v1/klines?symbol=BTC-200730-9000-C&interval=1m&limit=500'',
          rq_headers = [(''X-MBX-APIKEY'', Some ''key'')], rq_timeout = 5 \<rparr>]"
    by simp
  have "loop_sends rt_ok client_example
         \<lparr> rq_method = RequestMethod_value GET, rq_url = host client_example @ ''/api/v1/ping'',
           rq_headers = [(''X-MBX-APIKEY'', api_key client_example)],
           rq_timeout = timeout client_example \<rparr> world_start
     = [\<lparr> rq_method = ''GET'', rq_url = ''https://testnet.binanceops.com/api/v1/ping'',
          rq_headers = [(''X-MBX-APIKEY'', Some ''key'')], rq_timeout = 5 \<rparr>]"
    by code_simp
  with all url have direct: "requests_sent world_start (snd (request rt_ok client_example GET ''/api/v1/ping'' None False world_start))
     = [\<lparr> rq_method = ''GET'', rq_url = ''https://testnet.binanceops.com/api/v1/ping'',
          rq_headers = [(''X-MBX-APIKEY'', Some ''key'')], rq_timeout = 5 \<rparr>]"
    by simp
  from all key have "map rq_headers (requests_sent world_start (snd (request rt_ok client_example GET ''/api/v1/ping'' None False world_start)))
     = replicate (length (requests_sent world_start (snd (request rt_ok client_example GET ''/api/v1/ping'' None False world_start))))
         [(''X-MBX-APIKEY'', Some ''key'')]"
    by blast
  then have headers: "map rq_headers (requests_sent world_start (snd (request rt_ok client_example GET ''/api/v1/ping'' None False world_start)))
     = [[(''X-MBX-APIKEY'', Some ''key'')]]"
    by (simp add: direct)
  from direct ping time depth klines headers show ?thesis
    by (intro conjI)
qed

end
